theory Spec2Isabelle
  imports Complex_Main
begin

unbundle bit_operations_syntax

section \<open>Policies and the token bucket (policy.go, bucket.go)\<close>

text \<open>
  Go's \<^verbatim>\<open>int\<close> is 64 bits wide on the platforms the server is built for. The fields
  of a policy are modelled as \<^typ>\<open>int\<close>; the sum \<^verbatim>\<open>p.Limit + p.Burst\<close> that sizes a
  bucket is Go's sum, which wraps around at 64 bits (\<open>wrap64\<close>); where the same sum
  is only reported, in the \<^verbatim>\<open>Limit\<close> field of a result, it is written as a sum of
  integers, which is the number the code reports for every policy whose sum is within
  the 64-bit range. A \<^verbatim>\<open>float64\<close> is
  modelled as a \<^typ>\<open>real\<close> and its arithmetic as exact. For the conversion of an
  integer and for adding and subtracting whole numbers this is what \<^verbatim>\<open>float64\<close> does
  as long as the numbers stay within \<open>2^53\<close> in magnitude (and at \<open>-2^63\<close>, a power
  of two); the statements about the number of admitted calls and about
  \<open>max_tokens\<close> therefore carry the bound \<open>limit + burst \<le> 2^53\<close>. A
  \<^verbatim>\<open>time.Duration\<close> is a number of nanoseconds and a \<^verbatim>\<open>time.Time\<close> is the number of
  nanoseconds since a fixed epoch. Division by a zero window gives an infinity in Go
  and \<open>0\<close> here, so every statement that depends on the refill rate assumes a positive
  window, which is what the specification requires of a policy.
\<close>

type_synonym duration = int
type_synonym time = int

record Policy =
  Limit :: int
  Window :: duration
  Burst :: int
  Scope :: string
  Enabled :: bool
  Cost :: int
  ConcurrencyLimit :: int

definition Second :: duration where
  "Second = 1000000000"

definition Seconds :: "duration \<Rightarrow> real" where
  "Seconds d = real_of_int d / 1000000000"

record Bucket =
  Tokens :: real
  MaxTokens :: real
  RefillRate :: real
  LastRefill :: time

text \<open>The value of a Go \<^verbatim>\<open>int\<close> expression whose exact value is \<open>n\<close>: two's
  complement wrap-around at 64 bits.\<close>

definition wrap64 :: "int \<Rightarrow> int" where
  "wrap64 n = (n + 9223372036854775808) mod 18446744073709551616 - 9223372036854775808"

text \<open>\<^verbatim>\<open>NewBucket\<close> reads the clock; the reading is the argument \<open>now\<close>.\<close>

definition NewBucket :: "Policy \<Rightarrow> time \<Rightarrow> Bucket" where
  "NewBucket p now =
     (let mx = real_of_int (wrap64 (Limit p + Burst p))
      in \<lparr>Tokens = mx, MaxTokens = mx,
          RefillRate = real_of_int (Limit p) / Seconds (Window p),
          LastRefill = now\<rparr>)"

definition Bucket_refill :: "Bucket \<Rightarrow> time \<Rightarrow> Bucket" where
  "Bucket_refill b now =
     (let elapsed = Seconds (now - LastRefill b)
      in if elapsed \<le> 0 then b
         else b\<lparr>Tokens := min (MaxTokens b) (Tokens b + elapsed * RefillRate b),
                LastRefill := now\<rparr>)"

text \<open>\<^verbatim>\<open>Bucket.Allow\<close> returns \<open>(remaining, allowed)\<close> and the updated bucket;
  \<^verbatim>\<open>int(b.Tokens)\<close> truncates towards zero.\<close>

definition trunc :: "real \<Rightarrow> int" where
  "trunc x = (if 0 \<le> x then \<lfloor>x\<rfloor> else \<lceil>x\<rceil>)"

definition Bucket_Allow :: "Bucket \<Rightarrow> int \<Rightarrow> time \<Rightarrow> (int \<times> bool) \<times> Bucket" where
  "Bucket_Allow b cost now =
     (let b1 = Bucket_refill b now; c = real_of_int cost
      in if Tokens b1 \<ge> c
         then (let b2 = b1\<lparr>Tokens := Tokens b1 - c\<rparr> in ((trunc (Tokens b2), True), b2))
         else ((0, False), b1))"

definition Bucket_RetryAfter :: "Bucket \<Rightarrow> int \<Rightarrow> real" where
  "Bucket_RetryAfter b cost =
     (let deficit = real_of_int cost - Tokens b
      in if deficit \<le> 0 then 0
         else if RefillRate b \<le> 0 then 0
         else real_of_int \<lceil>deficit / RefillRate b\<rceil>)"

text \<open>\<^verbatim>\<open>ResetUnix\<close> reads the clock as well; \<^verbatim>\<open>Unix()\<close> is whole seconds.\<close>

definition Unix :: "time \<Rightarrow> int" where
  "Unix t = t div 1000000000"

definition Bucket_ResetUnix :: "Bucket \<Rightarrow> time \<Rightarrow> int" where
  "Bucket_ResetUnix b now =
     (let deficit = MaxTokens b - Tokens b
      in if deficit \<le> 0 then Unix now
         else (let seconds = deficit / RefillRate b
               in Unix (now + trunc (seconds * real_of_int Second))))"

text \<open>A run of \<^verbatim>\<open>Bucket.Allow\<close> calls on one bucket: each call is a pair \<open>(cost, now)\<close>;
  the results are collected in call order together with the final bucket.\<close>

fun Allow_calls :: "Bucket \<Rightarrow> (int \<times> time) list \<Rightarrow> (int \<times> bool) list \<times> Bucket" where
  "Allow_calls b [] = ([], b)"
| "Allow_calls b ((cost, now) # cs) =
     (let (r, b1) = Bucket_Allow b cost now;
          (rs, b2) = Allow_calls b1 cs
      in (r # rs, b2))"

text \<open>Refill and \<^verbatim>\<open>Allow\<close> operations in any order: the buckets visited, the
  starting bucket first.\<close>

datatype bucket_op = Refill time | AllowOp int time

fun apply_bucket_op :: "Bucket \<Rightarrow> bucket_op \<Rightarrow> Bucket" where
  "apply_bucket_op b (Refill now) = Bucket_refill b now"
| "apply_bucket_op b (AllowOp cost now) = snd (Bucket_Allow b cost now)"

fun op_cost :: "bucket_op \<Rightarrow> int" where
  "op_cost (Refill now) = 0"
| "op_cost (AllowOp cost now) = cost"

fun bucket_trace :: "Bucket \<Rightarrow> bucket_op list \<Rightarrow> Bucket list" where
  "bucket_trace b [] = [b]"
| "bucket_trace b (x # xs) = b # bucket_trace (apply_bucket_op b x) xs"

text \<open>A bucket within its bounds, with a refill rate that is not negative.\<close>

definition bucket_ok :: "Bucket \<Rightarrow> bool" where
  "bucket_ok b = (0 \<le> Tokens b \<and> Tokens b \<le> MaxTokens b \<and> 0 \<le> RefillRate b)"

section \<open>The result of an admission check and the in-memory store (bucket.go, store_memory.go)\<close>

record Result =
  Allowed :: bool
  Result_Limit :: int
  Remaining :: int
  RetryAfter :: int
  ResetAt :: int

record memEntry =
  bucket :: Bucket
  expiresAt :: time

text \<open>The store is its map of entries; the mutex serialises the calls, which is what
  the state passing expresses. The clock readings of one call are taken as one instant
  \<open>now\<close>.\<close>

type_synonym MemoryStore = "string \<rightharpoonup> memEntry"

definition MemoryStore_Allow ::
  "MemoryStore \<Rightarrow> string \<Rightarrow> Policy \<Rightarrow> int \<Rightarrow> time \<Rightarrow> Result \<times> MemoryStore" where
  "MemoryStore_Allow s key policy cost now =
     (let e0 = (case s key of
                  None \<Rightarrow> \<lparr>bucket = NewBucket policy now, expiresAt = now + Window policy * 2\<rparr>
                | Some e \<Rightarrow> e);
          e1 = e0\<lparr>expiresAt := now + Window policy * 2\<rparr>;
          ((remaining, allowed), b) = Bucket_Allow (bucket e1) cost now;
          res = \<lparr>Allowed = allowed, Result_Limit = Limit policy + Burst policy,
                 Remaining = remaining, RetryAfter = 0, ResetAt = Bucket_ResetUnix b now\<rparr>;
          res1 = (if \<not> allowed
                  then (let ra = trunc (Bucket_RetryAfter b cost)
                        in res\<lparr>RetryAfter := (if ra < 1 then 1 else ra)\<rparr>)
                  else res)
      in (res1, s(key \<mapsto> e1\<lparr>bucket := b\<rparr>)))"

definition MemoryStore_Reset :: "MemoryStore \<Rightarrow> string \<Rightarrow> MemoryStore" where
  "MemoryStore_Reset s key = s(key := None)"

fun MemoryStore_Allow_calls ::
  "MemoryStore \<Rightarrow> string \<Rightarrow> Policy \<Rightarrow> (int \<times> time) list \<Rightarrow> Result list \<times> MemoryStore" where
  "MemoryStore_Allow_calls s key policy [] = ([], s)"
| "MemoryStore_Allow_calls s key policy ((cost, now) # cs) =
     (let (r, s1) = MemoryStore_Allow s key policy cost now;
          (rs, s2) = MemoryStore_Allow_calls s1 key policy cs
      in (r # rs, s2))"


section \<open>The Redis store (store_redis.go)\<close>

text \<open>
  \<^verbatim>\<open>RedisStore.Allow\<close> sends \<^verbatim>\<open>max_tokens\<close> and the refill rate to the script as
  text, formatted with \<^verbatim>\<open>"%.4f"\<close>; the script reads them back with \<^verbatim>\<open>tonumber\<close>.
  The number that arrives is the argument rounded to four decimals, ties to even. Go
  rounds the binary value of the \<^verbatim>\<open>float64\<close>: at a real that is a decimal tie without
  being a binary fraction (\<open>1/20000\<close>) its digits follow the nearest double, not the
  tie rule. The evaluations below are at arguments away from such ties.
  Lua numbers are doubles and are modelled as reals like the bucket fields; the
  \<^verbatim>\<open>tostring\<close> / \<^verbatim>\<open>tonumber\<close> round trip of the persisted fields is taken as exact.
  A zero rate makes the script divide by zero (an infinity in Lua, \<open>0\<close> here), so the
  statements about the script are made at inputs whose four-decimal rate is positive.
\<close>

definition round_half_even :: "real \<Rightarrow> int" where
  "round_half_even x =
     (let f = \<lfloor>x\<rfloor>; d = x - real_of_int f
      in if d < 1 / 2 then f
         else if 1 / 2 < d then f + 1
         else if even f then f else f + 1)"

definition Sprintf_4f :: "real \<Rightarrow> real" where
  "Sprintf_4f x = real_of_int (round_half_even (x * 10000)) / 10000"

record bucket_hash =
  h_tokens :: real
  h_last_ms :: int
  h_ttl :: int

record redis_server =
  failure :: "string option"
  hashes :: "string \<rightharpoonup> bucket_hash"
  counters :: "string \<rightharpoonup> int"

text \<open>The script \<^verbatim>\<open>luaTokenBucket\<close>: it runs atomically on the hashes of the server and
  returns \<^verbatim>\<open>{allowed, remaining, retry_ms, reset_at}\<close>.\<close>

definition luaTokenBucket ::
  "(string \<rightharpoonup> bucket_hash) \<Rightarrow> string \<Rightarrow> real \<Rightarrow> real \<Rightarrow> int \<Rightarrow> int \<Rightarrow> int \<Rightarrow>
     (int \<times> int \<times> int \<times> int) \<times> (string \<rightharpoonup> bucket_hash)" where
  "luaTokenBucket db key mx rate cost now_ms ttl =
     (let (tokens0, last_ms0) =
            (case db key of None \<Rightarrow> (mx, now_ms) | Some h \<Rightarrow> (h_tokens h, h_last_ms h));
          elapsed_s = real_of_int (now_ms - last_ms0) / 1000;
          (tokens1, last_ms1) =
            (if elapsed_s > 0 then (min mx (tokens0 + elapsed_s * rate), now_ms)
             else (tokens0, last_ms0));
          (allowed, remaining, retry_ms, tokens2) =
            (if tokens1 \<ge> real_of_int cost
             then (1, \<lfloor>tokens1 - real_of_int cost\<rfloor>, 0, tokens1 - real_of_int cost)
             else (0, \<lfloor>tokens1\<rfloor>, \<lceil>((real_of_int cost - tokens1) / rate) * 1000\<rceil>, tokens1));
          db1 = db(key \<mapsto> \<lparr>h_tokens = tokens2, h_last_ms = last_ms1, h_ttl = ttl\<rparr>);
          deficit_full = mx - tokens2;
          reset_s = (if deficit_full > 0 \<and> rate > 0 then deficit_full / rate else 0);
          reset_at = \<lfloor>real_of_int now_ms / 1000\<rfloor> + \<lceil>reset_s\<rceil>
      in ((allowed, remaining, retry_ms, reset_at), db1))"

text \<open>\<^verbatim>\<open>luaTokenBucket.Run(...).Int64Slice()\<close>: on a transport or server error the
  client returns the error and the server state is untouched.\<close>

definition luaTokenBucket_Run ::
  "redis_server \<Rightarrow> string \<Rightarrow> real \<Rightarrow> real \<Rightarrow> int \<Rightarrow> int \<Rightarrow> int \<Rightarrow>
     (string + (int \<times> int \<times> int \<times> int)) \<times> redis_server" where
  "luaTokenBucket_Run srv key mx rate cost now_ms ttl =
     (case failure srv of
        Some err \<Rightarrow> (Inl err, srv)
      | None \<Rightarrow>
          (let (vals, db1) = luaTokenBucket (hashes srv) key mx rate cost now_ms ttl
           in (Inr vals, srv\<lparr>hashes := db1\<rparr>)))"

text \<open>Go's integer division truncates towards zero.\<close>

definition quot :: "int \<Rightarrow> int \<Rightarrow> int" where
  "quot a b = sgn a * sgn b * (\<bar>a\<bar> div \<bar>b\<bar>)"

definition UnixMilli :: "time \<Rightarrow> int" where
  "UnixMilli t = t div 1000000"

record RedisStore =
  prefix :: string

definition RedisStore_Allow ::
  "RedisStore \<Rightarrow> redis_server \<Rightarrow> string \<Rightarrow> Policy \<Rightarrow> int \<Rightarrow> time \<Rightarrow> Result \<times> redis_server" where
  "RedisStore_Allow s srv key policy cost now =
     (let fullKey = prefix s @ key;
          maxTokens = real_of_int (Limit policy + Burst policy);
          refillRate = real_of_int (Limit policy) / Seconds (Window policy);
          nowMs = UnixMilli now;
          ttl = trunc (Seconds (Window policy)) * 2
      in case luaTokenBucket_Run srv fullKey (Sprintf_4f maxTokens) (Sprintf_4f refillRate)
                cost nowMs ttl of
           (Inl err, srv1) \<Rightarrow>
             (\<lparr>Allowed = True, Result_Limit = Limit policy + Burst policy,
               Remaining = Limit policy + Burst policy, RetryAfter = 0, ResetAt = 0\<rparr>, srv1)
         | (Inr (v0, v1, v2, v3), srv1) \<Rightarrow>
             (let allowed = (v0 = 1);
                  retryAfter0 = quot v2 1000;
                  retryAfter = (if \<not> allowed \<and> retryAfter0 < 1 then 1 else retryAfter0)
              in (\<lparr>Allowed = allowed, Result_Limit = Limit policy + Burst policy,
                   Remaining = v1, RetryAfter = retryAfter, ResetAt = v3\<rparr>, srv1)))"

fun RedisStore_Allow_calls ::
  "RedisStore \<Rightarrow> redis_server \<Rightarrow> string \<Rightarrow> Policy \<Rightarrow> (int \<times> time) list \<Rightarrow>
     Result list \<times> redis_server" where
  "RedisStore_Allow_calls s srv key policy [] = ([], srv)"
| "RedisStore_Allow_calls s srv key policy ((cost, now) # cs) =
     (let (r, srv1) = RedisStore_Allow s srv key policy cost now;
          (rs, srv2) = RedisStore_Allow_calls s srv1 key policy cs
      in (r # rs, srv2))"

definition empty_redis :: redis_server where
  "empty_redis = \<lparr>failure = None, hashes = Map.empty, counters = Map.empty\<rparr>"

section \<open>Concurrency stores (bucket.go, store_redis.go)\<close>

text \<open>The interface \<^verbatim>\<open>ConcurrencyStore\<close>: an implementation over a state \<open>'c\<close>.
  \<^verbatim>\<open>Acquire\<close> returns \<open>(ok, err)\<close>, the error being \<open>None\<close> for \<^verbatim>\<open>nil\<close>.\<close>

record 'c ConcurrencyStore =
  Acquire :: "'c \<Rightarrow> string \<Rightarrow> int \<Rightarrow> (bool \<times> string option) \<times> 'c"
  Release :: "'c \<Rightarrow> string \<Rightarrow> string option \<times> 'c"

text \<open>A Go map of counters reads \<open>0\<close> at a missing key.\<close>

definition inflight_get :: "(string \<rightharpoonup> int) \<Rightarrow> string \<Rightarrow> int" where
  "inflight_get m key = (case m key of None \<Rightarrow> 0 | Some n \<Rightarrow> n)"

definition MemoryConcurrencyStore_Acquire ::
  "(string \<rightharpoonup> int) \<Rightarrow> string \<Rightarrow> int \<Rightarrow> (bool \<times> string option) \<times> (string \<rightharpoonup> int)" where
  "MemoryConcurrencyStore_Acquire m key limit =
     (if inflight_get m key \<ge> limit then ((False, None), m)
      else ((True, None), m(key \<mapsto> inflight_get m key + 1)))"

definition MemoryConcurrencyStore_Release ::
  "(string \<rightharpoonup> int) \<Rightarrow> string \<Rightarrow> string option \<times> (string \<rightharpoonup> int)" where
  "MemoryConcurrencyStore_Release m key =
     (let m1 = (if inflight_get m key > 0 then m(key \<mapsto> inflight_get m key - 1) else m);
          m2 = (if inflight_get m1 key = 0 then m1(key := None) else m1)
      in (None, m2))"

definition MemoryConcurrencyStore :: "(string \<rightharpoonup> int) ConcurrencyStore" where
  "MemoryConcurrencyStore =
     \<lparr>Acquire = MemoryConcurrencyStore_Acquire, Release = MemoryConcurrencyStore_Release\<rparr>"

text \<open>The script \<^verbatim>\<open>luaConcAcquire\<close> on the counters of the server. The expiry of keys
  (\<^verbatim>\<open>EXPIRE\<close>) runs on the server's own clock and is not modelled; the bucket hash
  records the time to live it was given.\<close>

definition luaConcAcquire ::
  "(string \<rightharpoonup> int) \<Rightarrow> string \<Rightarrow> int \<Rightarrow> int \<times> (string \<rightharpoonup> int)" where
  "luaConcAcquire db key limit =
     (let cur = inflight_get db key
      in if cur \<ge> limit then (0, db) else (1, db(key \<mapsto> cur + 1)))"

record RedisConcurrencyStore =
  conc_prefix :: string
  conc_ttl :: duration

definition NewRedisConcurrencyStore :: "string \<Rightarrow> duration \<Rightarrow> RedisConcurrencyStore" where
  "NewRedisConcurrencyStore pfx ttl = \<lparr>conc_prefix = pfx @ ''conc:'', conc_ttl = ttl\<rparr>"

definition RedisConcurrencyStore_Acquire ::
  "RedisConcurrencyStore \<Rightarrow> redis_server \<Rightarrow> string \<Rightarrow> int \<Rightarrow> (bool \<times> string option) \<times> redis_server" where
  "RedisConcurrencyStore_Acquire r srv key limit =
     (case failure srv of
        Some err \<Rightarrow> ((True, None), srv)
      | None \<Rightarrow>
          (let (res, db1) = luaConcAcquire (counters srv) (conc_prefix r @ key) limit
           in ((res = 1, None), srv\<lparr>counters := db1\<rparr>)))"

definition RedisConcurrencyStore_Release ::
  "RedisConcurrencyStore \<Rightarrow> redis_server \<Rightarrow> string \<Rightarrow> string option \<times> redis_server" where
  "RedisConcurrencyStore_Release r srv key =
     (case failure srv of
        Some err \<Rightarrow> (Some err, srv)
      | None \<Rightarrow>
          (let fullKey = conc_prefix r @ key;
               res = inflight_get (counters srv) fullKey - 1;
               db1 = (if res \<le> 0 then (counters srv)(fullKey := None)
                      else (counters srv)(fullKey \<mapsto> res))
           in (None, srv\<lparr>counters := db1\<rparr>)))"

definition RedisConcurrencyStore_impl :: "RedisConcurrencyStore \<Rightarrow> redis_server ConcurrencyStore" where
  "RedisConcurrencyStore_impl r =
     \<lparr>Acquire = RedisConcurrencyStore_Acquire r, Release = RedisConcurrencyStore_Release r\<rparr>"

section \<open>Strings and requests\<close>

text \<open>
  A Go string is a sequence of bytes and so is a \<^typ>\<open>string\<close> here; \<^verbatim>\<open>len\<close> and
  slicing count bytes. The functions of package \<^verbatim>\<open>strings\<close> are written out for ASCII
  text: \<^verbatim>\<open>TrimSpace\<close> removes tab, line feed, vertical tab, form feed, carriage return
  and space from both ends, \<^verbatim>\<open>ToLower\<close> maps \<^verbatim>\<open>A-Z\<close> to \<^verbatim>\<open>a-z\<close>. On text with
  bytes outside ASCII Go's functions also treat the Unicode white space and the
  Unicode upper-case letters, which these definitions leave as they are; addresses,
  header values and identifiers are ASCII in every example below.
\<close>

definition isSpace :: "char \<Rightarrow> bool" where
  "isSpace c = (let n = (of_char c :: nat) in (9 \<le> n \<and> n \<le> 13) \<or> n = 32)"

definition TrimSpace :: "string \<Rightarrow> string" where
  "TrimSpace s = rev (dropWhile isSpace (rev (dropWhile isSpace s)))"

definition toLower_char :: "char \<Rightarrow> char" where
  "toLower_char c =
     (let n = (of_char c :: nat) in if 65 \<le> n \<and> n \<le> 90 then char_of (n + 32) else c)"

definition ToLower :: "string \<Rightarrow> string" where
  "ToLower s = map toLower_char s"

text \<open>\<^verbatim>\<open>strings.Split(s, ",")\<close> for a one-byte separator: the fields between the
  separators, a single empty field for the empty string.\<close>

fun Split :: "string \<Rightarrow> char \<Rightarrow> string list" where
  "Split [] sep = [[]]"
| "Split (c # cs) sep =
     (if c = sep then [] # Split cs sep
      else (case Split cs sep of [] \<Rightarrow> [[c]] | f # fs \<Rightarrow> (c # f) # fs))"

definition HasPrefix :: "string \<Rightarrow> string \<Rightarrow> bool" where
  "HasPrefix s p = (take (length p) s = p)"

text \<open>
  The part of \<^verbatim>\<open>*http.Request\<close> that the limiter reads. \<open>Header\<close> is
  \<^verbatim>\<open>r.Header.Get\<close> (the empty string for an absent header), \<open>URL_Query\<close> the decoded
  query parameters and \<open>PostForm\<close> the decoded body parameters, both in order of
  appearance.
\<close>

record Request =
  Method :: string
  RemoteAddr :: string
  Header :: "string \<Rightarrow> string"
  URL_Path :: string
  URL_Query :: "(string \<times> string) list"
  PostForm :: "(string \<times> string) list"

definition Values_Get :: "(string \<times> string) list \<Rightarrow> string \<Rightarrow> string" where
  "Values_Get vs field = (case map_of vs field of None \<Rightarrow> [] | Some v \<Rightarrow> v)"

text \<open>After \<^verbatim>\<open>ParseForm\<close>, \<^verbatim>\<open>r.Form\<close> holds the body parameters followed by the query
  parameters; \<^verbatim>\<open>FormValue\<close> returns the first value of the field, or the empty string.\<close>

definition FormValue :: "Request \<Rightarrow> string \<Rightarrow> string" where
  "FormValue r field = Values_Get (PostForm r @ URL_Query r) field"

section \<open>Client IP resolution (clientip.go)\<close>

text \<open>
  The functions of Go's package \<^verbatim>\<open>net\<close> that the resolver calls are parameters of the
  model: \<open>SplitHostPort\<close> (\<open>None\<close> for an error), \<open>ParseIP\<close> (\<open>None\<close> for \<^verbatim>\<open>nil\<close>),
  \<^verbatim>\<open>IP.String\<close>, \<^verbatim>\<open>IP.Equal\<close>, \<open>ParseCIDR\<close> and \<^verbatim>\<open>IPNet.Contains\<close>.
\<close>

record ('ip, 'cidr) netlib =
  SplitHostPort :: "string \<Rightarrow> (string \<times> string) option"
  ParseIP :: "string \<Rightarrow> 'ip option"
  IP_String :: "'ip \<Rightarrow> string"
  IP_Equal :: "'ip \<Rightarrow> 'ip \<Rightarrow> bool"
  ParseCIDR :: "string \<Rightarrow> 'cidr option"
  CIDR_Contains :: "'cidr \<Rightarrow> 'ip \<Rightarrow> bool"

record RateLimitConfig =
  cfg_Enabled :: bool
  cfg_Store :: string
  cfg_RedisPrefix :: string
  cfg_DefaultResponseFormat :: string
  cfg_TrustedProxies :: "string list"

definition extractIP :: "('ip, 'cidr) netlib \<Rightarrow> string \<Rightarrow> string" where
  "extractIP net addr = (case SplitHostPort net addr of None \<Rightarrow> addr | Some (host, port) \<Rightarrow> host)"

definition normalizeIP :: "('ip, 'cidr) netlib \<Rightarrow> string \<Rightarrow> string" where
  "normalizeIP net raw =
     (let raw1 = TrimSpace raw
      in case ParseIP net raw1 of None \<Rightarrow> raw1 | Some ip \<Rightarrow> IP_String net ip)"

fun trusted_entry :: "('ip, 'cidr) netlib \<Rightarrow> 'ip \<Rightarrow> string list \<Rightarrow> bool" where
  "trusted_entry net parsedIP [] = False"
| "trusted_entry net parsedIP (entry # entries) =
     (if CHR ''/'' \<in> set entry
      then (case ParseCIDR net entry of
              None \<Rightarrow> trusted_entry net parsedIP entries
            | Some cidr \<Rightarrow>
                if CIDR_Contains net cidr parsedIP then True
                else trusted_entry net parsedIP entries)
      else (case ParseIP net entry of
              None \<Rightarrow> trusted_entry net parsedIP entries
            | Some e \<Rightarrow>
                if IP_Equal net e parsedIP then True
                else trusted_entry net parsedIP entries))"

definition isTrusted :: "('ip, 'cidr) netlib \<Rightarrow> string \<Rightarrow> string list \<Rightarrow> bool" where
  "isTrusted net ip trusted =
     (case ParseIP net ip of None \<Rightarrow> False | Some parsedIP \<Rightarrow> trusted_entry net parsedIP trusted)"

text \<open>The loop over the \<^verbatim>\<open>X-Forwarded-For\<close> entries from right to left; the argument
  is the reversed list of entries. \<open>None\<close> when the loop ends without returning.\<close>

fun xff_walk :: "('ip, 'cidr) netlib \<Rightarrow> string list \<Rightarrow> string list \<Rightarrow> string option" where
  "xff_walk net trusted [] = None"
| "xff_walk net trusted (part # parts) =
     (let ip = TrimSpace part
      in if ip = [] then xff_walk net trusted parts
         else if \<not> isTrusted net ip trusted then Some (normalizeIP net ip)
         else xff_walk net trusted parts)"

text \<open>\<open>cfg\<close> is \<^verbatim>\<open>config.RateLimit\<close>, \<open>None\<close> when the pointer is \<^verbatim>\<open>nil\<close>.\<close>

definition ClientIP :: "('ip, 'cidr) netlib \<Rightarrow> RateLimitConfig option \<Rightarrow> Request \<Rightarrow> string" where
  "ClientIP net cfg r =
     (let peerIP = extractIP net (RemoteAddr r);
          trusted = (case cfg of None \<Rightarrow> [] | Some c \<Rightarrow> cfg_TrustedProxies c)
      in if length trusted = 0 \<or> \<not> isTrusted net peerIP trusted then normalizeIP net peerIP
         else if Header r ''X-Real-IP'' \<noteq> [] then normalizeIP net (TrimSpace (Header r ''X-Real-IP''))
         else (let xff = Header r ''X-Forwarded-For''
               in if xff \<noteq> []
                  then (let parts = Split xff CHR '',''
                        in case xff_walk net trusted (rev parts) of
                             Some ip \<Rightarrow> ip
                           | None \<Rightarrow>
                               if TrimSpace (hd parts) \<noteq> [] then normalizeIP net (TrimSpace (hd parts))
                               else normalizeIP net peerIP)
                  else normalizeIP net peerIP))"

subsection \<open>An instance of the library for dotted-quad addresses\<close>

text \<open>
  The examples below are evaluated with this instance: \<open>ParseIP\<close> accepts four decimal
  fields of one to three digits without a leading zero and at most \<open>255\<close>,
  \<open>SplitHostPort\<close> splits at the last colon and fails without one, and a CIDR is an
  address, a slash and a prefix length of at most \<open>32\<close>.
\<close>

definition isDigit :: "char \<Rightarrow> bool" where
  "isDigit c = (let n = (of_char c :: nat) in 48 \<le> n \<and> n \<le> 57)"

definition parse_dec :: "string \<Rightarrow> nat option" where
  "parse_dec s =
     (if s = [] \<or> \<not> list_all isDigit s then None
      else Some (foldl (\<lambda>acc c. 10 * acc + (of_char c - 48)) 0 s))"

definition parse_octet :: "string \<Rightarrow> nat option" where
  "parse_octet s =
     (if length s > 3 \<or> (length s > 1 \<and> hd s = CHR ''0'') then None
      else (case parse_dec s of None \<Rightarrow> None | Some n \<Rightarrow> if n \<le> 255 then Some n else None))"

definition ipv4_ParseIP :: "string \<Rightarrow> nat option" where
  "ipv4_ParseIP s =
     (case map parse_octet (Split s CHR ''.'') of
        [Some a, Some b, Some c, Some d] \<Rightarrow> Some (((a * 256 + b) * 256 + c) * 256 + d)
      | _ \<Rightarrow> None)"

definition digit_char :: "nat \<Rightarrow> char" where
  "digit_char n = char_of (48 + n)"

definition show_octet :: "nat \<Rightarrow> string" where
  "show_octet n =
     (if n < 10 then [digit_char n]
      else if n < 100 then [digit_char (n div 10), digit_char (n mod 10)]
      else [digit_char (n div 100), digit_char (n div 10 mod 10), digit_char (n mod 10)])"

definition ipv4_String :: "nat \<Rightarrow> string" where
  "ipv4_String ip =
     show_octet (ip div 16777216 mod 256) @ ''.'' @ show_octet (ip div 65536 mod 256) @ ''.'' @
     show_octet (ip div 256 mod 256) @ ''.'' @ show_octet (ip mod 256)"

definition ipv4_SplitHostPort :: "string \<Rightarrow> (string \<times> string) option" where
  "ipv4_SplitHostPort addr =
     (if CHR '':'' \<notin> set addr then None
      else (let port = rev (takeWhile (\<lambda>c. c \<noteq> CHR '':'') (rev addr));
                host = take (length addr - length port - 1) addr
            in if CHR '':'' \<in> set host then None else Some (host, port)))"

definition ipv4_ParseCIDR :: "string \<Rightarrow> (nat \<times> nat) option" where
  "ipv4_ParseCIDR s =
     (case Split s CHR ''/'' of
        [a, n] \<Rightarrow>
          (case (ipv4_ParseIP a, parse_dec n) of
             (Some ip, Some bits) \<Rightarrow>
               if bits \<le> 32 then Some (ip div 2 ^ (32 - bits), bits) else None
           | _ \<Rightarrow> None)
      | _ \<Rightarrow> None)"

definition ipv4_Contains :: "nat \<times> nat \<Rightarrow> nat \<Rightarrow> bool" where
  "ipv4_Contains cidr ip = (ip div 2 ^ (32 - snd cidr) = fst cidr)"

definition ipv4_net :: "(nat, nat \<times> nat) netlib" where
  "ipv4_net =
     \<lparr>SplitHostPort = ipv4_SplitHostPort, ParseIP = ipv4_ParseIP, IP_String = ipv4_String,
      IP_Equal = (=), ParseCIDR = ipv4_ParseCIDR, CIDR_Contains = ipv4_Contains\<rparr>"

section \<open>Key functions (keys.go)\<close>

subsection \<open>SHA-256\<close>

text \<open>
  \<^verbatim>\<open>crypto/sha256\<close> is the function of FIPS 180-4. A 32-bit word is a natural number
  below \<open>2^32\<close>; additions wrap around by an explicit \<open>mod\<close>. The round constants and
  the initial hash value are the standard's, written in decimal.
\<close>

definition add32 :: "nat \<Rightarrow> nat \<Rightarrow> nat" where
  "add32 x y = (x + y) mod 4294967296"

definition rotr :: "nat \<Rightarrow> nat \<Rightarrow> nat" where
  "rotr n x = x div 2 ^ n + (x mod 2 ^ n) * 2 ^ (32 - n)"

definition shr :: "nat \<Rightarrow> nat \<Rightarrow> nat" where
  "shr n x = x div 2 ^ n"

definition not32 :: "nat \<Rightarrow> nat" where
  "not32 x = 4294967295 - x"

definition ssig0 :: "nat \<Rightarrow> nat" where
  "ssig0 x = rotr 7 x XOR rotr 18 x XOR shr 3 x"

definition ssig1 :: "nat \<Rightarrow> nat" where
  "ssig1 x = rotr 17 x XOR rotr 19 x XOR shr 10 x"

definition bsig0 :: "nat \<Rightarrow> nat" where
  "bsig0 x = rotr 2 x XOR rotr 13 x XOR rotr 22 x"

definition bsig1 :: "nat \<Rightarrow> nat" where
  "bsig1 x = rotr 6 x XOR rotr 11 x XOR rotr 25 x"

definition ch :: "nat \<Rightarrow> nat \<Rightarrow> nat \<Rightarrow> nat" where
  "ch x y z = (x AND y) XOR (not32 x AND z)"

definition maj :: "nat \<Rightarrow> nat \<Rightarrow> nat \<Rightarrow> nat" where
  "maj x y z = (x AND y) XOR (x AND z) XOR (y AND z)"

definition K256 :: "nat list" where
  "K256 =
    [1116352408, 1899447441, 3049323471, 3921009573, 961987163, 1508970993,
     2453635748, 2870763221, 3624381080, 310598401, 607225278, 1426881987,
     1925078388, 2162078206, 2614888103, 3248222580, 3835390401, 4022224774,
     264347078, 604807628, 770255983, 1249150122, 1555081692, 1996064986,
     2554220882, 2821834349, 2952996808, 3210313671, 3336571891, 3584528711,
     113926993, 338241895, 666307205, 773529912, 1294757372, 1396182291,
     1695183700, 1986661051, 2177026350, 2456956037, 2730485921, 2820302411,
     3259730800, 3345764771, 3516065817, 3600352804, 4094571909, 275423344,
     430227734, 506948616, 659060556, 883997877, 958139571, 1322822218,
     1537002063, 1747873779, 1955562222, 2024104815, 2227730452, 2361852424,
     2428436474, 2756734187, 3204031479, 3329325298]"

definition H256 :: "nat list" where
  "H256 =
    [1779033703, 3144134277, 1013904242, 2773480762,
     1359893119, 2600822924, 528734635, 1541459225]"

text \<open>The message schedule is kept as a window of sixteen words: the head is the word
  of the current round and \<open>next_w\<close> is the word sixteen rounds later.\<close>

fun next_w :: "nat list \<Rightarrow> nat" where
  "next_w (w0 # w1 # w2 # w3 # w4 # w5 # w6 # w7 # w8 # w9 # w10 # w11 # w12 # w13 # w14 # ws) =
     add32 (add32 (add32 (ssig1 w14) w9) (ssig0 w1)) w0"
| "next_w ws = 0"

definition slide :: "nat list \<Rightarrow> nat \<Rightarrow> nat list" where
  "slide win w = tl win @ [w]"

fun fin_round :: "nat list \<Rightarrow> nat \<Rightarrow> nat \<Rightarrow> nat list" where
  "fin_round [a, b, c, d, e, f, g, h] t1 t2 = [add32 t1 t2, a, b, c, add32 d t1, e, f, g]"
| "fin_round s t1 t2 = s"

fun round256 :: "nat list \<Rightarrow> nat \<Rightarrow> nat \<Rightarrow> nat list" where
  "round256 [a, b, c, d, e, f, g, h] k w =
     fin_round [a, b, c, d, e, f, g, h]
       (add32 (add32 (add32 (add32 h (bsig1 e)) (ch e f g)) k) w)
       (add32 (bsig0 a) (maj a b c))"
| "round256 s k w = s"

fun rounds :: "nat list \<Rightarrow> nat list \<Rightarrow> nat list \<Rightarrow> nat list" where
  "rounds [] win s = s"
| "rounds (k # ks) win s = rounds ks (slide win (next_w win)) (round256 s k (hd win))"

definition compress :: "nat list \<Rightarrow> nat list \<Rightarrow> nat list" where
  "compress hs blk = map2 add32 hs (rounds K256 blk hs)"

fun be_words :: "nat list \<Rightarrow> nat list" where
  "be_words (a # b # c # d # bs) = (((a * 256 + b) * 256 + c) * 256 + d) # be_words bs"
| "be_words bs = []"

definition be_bytes8 :: "nat \<Rightarrow> nat list" where
  "be_bytes8 n = map (\<lambda>i. n div 256 ^ i mod 256) [7, 6, 5, 4, 3, 2, 1, 0]"

definition pad :: "nat list \<Rightarrow> nat list" where
  "pad m = m @ [128] @ replicate ((119 - length m mod 64) mod 64) 0 @ be_bytes8 (8 * length m)"

fun blocks :: "nat list \<Rightarrow> nat list \<Rightarrow> nat list" where
  "blocks hs (w0 # w1 # w2 # w3 # w4 # w5 # w6 # w7 # w8 # w9 # w10 # w11 # w12 # w13 # w14 # w15 # ws) =
     blocks (compress hs [w0, w1, w2, w3, w4, w5, w6, w7, w8, w9, w10, w11, w12, w13, w14, w15]) ws"
| "blocks hs ws = hs"

definition sha256 :: "string \<Rightarrow> nat list" where
  "sha256 v = blocks H256 (be_words (pad (map of_char v)))"

definition hex_digit :: "nat \<Rightarrow> char" where
  "hex_digit n = ''0123456789abcdef'' ! (n mod 16)"

definition hex_word :: "nat \<Rightarrow> string" where
  "hex_word w = map (\<lambda>i. hex_digit (w div 16 ^ i)) [7, 6, 5, 4, 3, 2, 1, 0]"

definition hex_EncodeToString :: "nat list \<Rightarrow> string" where
  "hex_EncodeToString ws = concat (map hex_word ws)"

subsection \<open>The key functions\<close>

definition KeyTypeIP :: string where "KeyTypeIP = ''ip''"
definition KeyTypeIPUA :: string where "KeyTypeIPUA = ''ipua''"
definition KeyTypeIPRoute :: string where "KeyTypeIPRoute = ''iproute''"
definition KeyTypeIPIdent :: string where "KeyTypeIPIdent = ''ipident''"

definition hashValue :: "string \<Rightarrow> string" where
  "hashValue v = take 16 (hex_EncodeToString (sha256 v))"

definition extractIdentifier :: "Request \<Rightarrow> string \<Rightarrow> string" where
  "extractIdentifier r field =
     (if (Method r = ''POST'' \<or> Method r = ''PUT'') \<and> FormValue r field \<noteq> []
      then ToLower (TrimSpace (FormValue r field))
      else if Values_Get (URL_Query r) field \<noteq> []
      then ToLower (TrimSpace (Values_Get (URL_Query r) field))
      else [])"

definition KeyByIP ::
  "('ip, 'cidr) netlib \<Rightarrow> RateLimitConfig option \<Rightarrow> Request \<Rightarrow> string \<times> string" where
  "KeyByIP net cfg r = (''ip:'' @ ClientIP net cfg r, KeyTypeIP)"

definition KeyByIPAndIdentifier ::
  "('ip, 'cidr) netlib \<Rightarrow> RateLimitConfig option \<Rightarrow> string \<Rightarrow> Request \<Rightarrow> string \<times> string" where
  "KeyByIPAndIdentifier net cfg field r =
     (let ip = ClientIP net cfg r;
          identifier = extractIdentifier r field
      in (''ipident:'' @ ip @ '':'' @ hashValue identifier, KeyTypeIPIdent))"

definition KeyByIPAndRoute ::
  "('ip, 'cidr) netlib \<Rightarrow> RateLimitConfig option \<Rightarrow> Request \<Rightarrow> string \<times> string" where
  "KeyByIPAndRoute net cfg r = (''iproute:'' @ ClientIP net cfg r @ '':'' @ URL_Path r, KeyTypeIPRoute)"

definition KeyByIPAndUA ::
  "('ip, 'cidr) netlib \<Rightarrow> RateLimitConfig option \<Rightarrow> Request \<Rightarrow> string \<times> string" where
  "KeyByIPAndUA net cfg r =
     (''ipua:'' @ ClientIP net cfg r @ '':'' @ hashValue (Header r ''User-Agent''), KeyTypeIPUA)"

text \<open>A \<^verbatim>\<open>POST\<close> request whose body carries one form field, and one that carries the
  field in the query string as well.\<close>

definition post_form :: "string \<Rightarrow> string \<Rightarrow> string \<Rightarrow> Request" where
  "post_form addr field v =
     \<lparr>Method = ''POST'', RemoteAddr = addr, Header = (\<lambda>h. []), URL_Path = ''/login'',
      URL_Query = [], PostForm = [(field, v)]\<rparr>"

definition post_form_query :: "string \<Rightarrow> string \<Rightarrow> string \<Rightarrow> string \<Rightarrow> Request" where
  "post_form_query addr field v q = (post_form addr field v)\<lparr>URL_Query := [(field, q)]\<rparr>"

section \<open>The limiter middleware (middleware.go, log.go, allowlist.go)\<close>

record LogEntry =
  entry_Method :: string
  entry_Path :: string
  KeyType :: string
  KeyHash :: string
  entry_Scope :: string
  entry_RetryAfter :: int
  entry_ClientIP :: string

text \<open>The lines written with \<^verbatim>\<open>log.Printf\<close>, by their arguments: the denial line
  carries method, path, key type, scope, key, retry-after and reason.\<close>

datatype log_line =
    Log_concurrency_store_error string string
  | Log_concurrency_release_error string string
  | Log_DENIED string string string string string int string
  | Log_write_failed string

type_synonym AllowRule = "Request \<Rightarrow> bool"
type_synonym KeyFunc = "Request \<Rightarrow> string \<times> string"
type_synonym OnLimitFunc = "Request \<Rightarrow> Result \<Rightarrow> bool"
type_synonym LogStore = "LogEntry \<Rightarrow> string option"

definition BypassPaths :: "string list \<Rightarrow> AllowRule" where
  "BypassPaths prefixes r = list_ex (\<lambda>p. HasPrefix (URL_Path r) p) prefixes"

definition BypassHeader :: "string \<Rightarrow> string \<Rightarrow> AllowRule" where
  "BypassHeader h v r = (Header r h = v)"

text \<open>A limiter over a store with state \<open>'s\<close> and a concurrency store with state \<open>'c\<close>;
  \<open>store\<close> is the \<^verbatim>\<open>Allow\<close> method of the \<^verbatim>\<open>Store\<close> interface.\<close>

record ('s, 'c) Limiter =
  store :: "'s \<Rightarrow> string \<Rightarrow> Policy \<Rightarrow> int \<Rightarrow> Result \<times> 's"
  concurrencyStore :: "'c ConcurrencyStore option"
  policy :: Policy
  keyFunc :: KeyFunc
  onLimit :: "OnLimitFunc option"
  allowlist :: "AllowRule list"
  logStore :: "LogStore option"

definition truncateKey :: "string \<Rightarrow> string" where
  "truncateKey key = (if length key > 40 then take 40 key @ ''...'' else key)"

fun searchString :: "string \<Rightarrow> string \<Rightarrow> bool" where
  "searchString [] sub = (sub = [])"
| "searchString (c # cs) sub =
     (if length (c # cs) < length sub then False
      else if take (length sub) (c # cs) = sub then True
      else searchString cs sub)"

definition contains :: "string \<Rightarrow> string \<Rightarrow> bool" where
  "contains s substr = (length s \<ge> length substr \<and> searchString s substr)"

definition containsJSON :: "string \<Rightarrow> bool" where
  "containsJSON accept =
     (length accept > 0 \<and> (contains accept ''application/json'' \<or> contains accept ''text/json''))"

text \<open>What the limiter does to the response: the numeric headers it sets (in order,
  as numbers; \<^verbatim>\<open>strconv\<close> renders them), the status and content type it writes, and
  whether the downstream handler or the \<^verbatim>\<open>onLimit\<close> callback took the request.\<close>

record Response =
  status :: "int option"
  headers :: "(string \<times> int) list"
  content_type :: string
  next_called :: bool
  handled_by_onLimit :: bool

record ('s, 'c) served =
  response :: Response
  log_lines :: "log_line list"
  log_entries :: "LogEntry list"
  store_state :: 's
  conc_state :: 'c

definition setRateLimitHeaders :: "Result \<Rightarrow> (string \<times> int) list" where
  "setRateLimitHeaders r =
     [(''X-RateLimit-Limit'', Result_Limit r), (''X-RateLimit-Remaining'', Remaining r),
      (''X-RateLimit-Reset'', ResetAt r)]"

definition next_ServeHTTP :: "(string \<times> int) list \<Rightarrow> Response" where
  "next_ServeHTTP hs =
     \<lparr>status = None, headers = hs, content_type = [], next_called = True,
      handled_by_onLimit = False\<rparr>"

text \<open>\<^verbatim>\<open>denyResponse\<close>: the log lines, the entries handed to the log store and the
  response; \<open>hs\<close> are the headers already set by the caller.\<close>

definition denyResponse ::
  "('s, 'c) Limiter \<Rightarrow> ('ip, 'cidr) netlib \<Rightarrow> RateLimitConfig \<Rightarrow> Request \<Rightarrow> (string \<times> int) list \<Rightarrow>
     Result \<Rightarrow> string \<Rightarrow> string \<Rightarrow> string \<Rightarrow> Response \<times> log_line list \<times> LogEntry list" where
  "denyResponse l net cfg r hs result key keyType reason =
     (let line = Log_DENIED (Method r) (URL_Path r) keyType (Scope (policy l)) (truncateKey key)
                   (RetryAfter result) reason;
          (entries, lines) =
            (case logStore l of
               None \<Rightarrow> ([], [line])
             | Some ls \<Rightarrow>
                 (let entry = \<lparr>entry_Method = Method r, entry_Path = URL_Path r, KeyType = keyType,
                                KeyHash = truncateKey key, entry_Scope = Scope (policy l),
                                entry_RetryAfter = RetryAfter result,
                                entry_ClientIP = ClientIP net (Some cfg) r\<rparr>
                  in ([entry],
                      (case ls entry of None \<Rightarrow> [line] | Some err \<Rightarrow> [line, Log_write_failed err]))));
          handled = (case onLimit l of None \<Rightarrow> False | Some f \<Rightarrow> f r result)
      in if handled
         then (\<lparr>status = None, headers = hs, content_type = [], next_called = False,
                handled_by_onLimit = True\<rparr>, lines, entries)
         else (let format = (if containsJSON (Header r ''Accept'') then ''json''
                             else cfg_DefaultResponseFormat cfg)
               in (\<lparr>status = Some 429,
                    headers = hs @ setRateLimitHeaders result @ [(''Retry-After'', RetryAfter result)],
                    content_type = (if format = ''json'' then ''application/json; charset=utf-8''
                                    else ''text/html; charset=utf-8''),
                    next_called = False, handled_by_onLimit = False\<rparr>, lines, entries)))"

text \<open>The rate-limit check of the middleware, after the concurrency check.\<close>

definition rate_check ::
  "('s, 'c) Limiter \<Rightarrow> ('ip, 'cidr) netlib \<Rightarrow> RateLimitConfig \<Rightarrow> Request \<Rightarrow> string \<Rightarrow> string \<Rightarrow>
     int \<Rightarrow> 's \<Rightarrow> (Response \<times> log_line list \<times> LogEntry list) \<times> 's" where
  "rate_check l net cfg r key keyType cost s =
     (let (result, s1) = store l s key (policy l) cost;
          hs = setRateLimitHeaders result
      in if \<not> Allowed result
         then (denyResponse l net cfg r hs result key keyType ''rate'', s1)
         else ((next_ServeHTTP hs, [], []), s1))"

text \<open>
  \<^verbatim>\<open>Limiter.Middleware\<close> on one request, from the states of the two stores.
  \<^verbatim>\<open>config.RateLimit\<close> is dereferenced without a check: the result is \<open>None\<close> (a nil
  pointer panic) when it is \<^verbatim>\<open>nil\<close>. The downstream handler is taken not to touch the
  stores; the deferred \<^verbatim>\<open>Release\<close> runs when the function returns.
\<close>

definition Middleware ::
  "('s, 'c) Limiter \<Rightarrow> ('ip, 'cidr) netlib \<Rightarrow> RateLimitConfig option \<Rightarrow> Request \<Rightarrow> 's \<Rightarrow> 'c \<Rightarrow>
     ('s, 'c) served option" where
  "Middleware l net cfgo r s c =
     (case cfgo of
        None \<Rightarrow> None
      | Some cfg \<Rightarrow>
          Some
            (if \<not> cfg_Enabled cfg \<or> \<not> Enabled (policy l)
             then \<lparr>response = next_ServeHTTP [], log_lines = [], log_entries = [],
                   store_state = s, conc_state = c\<rparr>
             else if list_ex (\<lambda>rule. rule r) (allowlist l)
             then \<lparr>response = next_ServeHTTP [], log_lines = [], log_entries = [],
                   store_state = s, conc_state = c\<rparr>
             else
               (let (key, keyType) = keyFunc l r;
                    cost = (if Cost (policy l) < 1 then 1 else Cost (policy l))
                in case (if ConcurrencyLimit (policy l) > 0 then concurrencyStore l else None) of
                     None \<Rightarrow>
                       (let ((resp, lines, entries), s1) = rate_check l net cfg r key keyType cost s
                        in \<lparr>response = resp, log_lines = lines, log_entries = entries,
                            store_state = s1, conc_state = c\<rparr>)
                   | Some cs \<Rightarrow>
                       (let ((ok, err), c1) = Acquire cs c key (ConcurrencyLimit (policy l));
                            lines0 = (case err of None \<Rightarrow> []
                                      | Some e \<Rightarrow> [Log_concurrency_store_error (truncateKey key) e])
                        in if \<not> ok
                           then (let (resp, lines, entries) =
                                       denyResponse l net cfg r []
                                         \<lparr>Allowed = False, Result_Limit = ConcurrencyLimit (policy l),
                                          Remaining = 0, RetryAfter = 1, ResetAt = 0\<rparr>
                                         key keyType ''concurrency''
                                 in \<lparr>response = resp, log_lines = lines0 @ lines, log_entries = entries,
                                     store_state = s, conc_state = c1\<rparr>)
                           else (let ((resp, lines, entries), s1) =
                                       rate_check l net cfg r key keyType cost s;
                                     (rerr, c2) = Release cs c1 key;
                                     lines1 = (case rerr of None \<Rightarrow> []
                                               | Some e \<Rightarrow> [Log_concurrency_release_error (truncateKey key) e])
                                 in \<lparr>response = resp, log_lines = lines0 @ lines @ lines1,
                                     log_entries = entries, store_state = s1, conc_state = c2\<rparr>)))))"

text \<open>Two concurrency stores in the shape of the interface whose \<^verbatim>\<open>Acquire\<close> reports
  an error: one in the usual Go way, \<^verbatim>\<open>(false, err)\<close>, and one that grants the slot
  all the same, \<^verbatim>\<open>(true, err)\<close>.\<close>

definition failing_ConcurrencyStore :: "unit ConcurrencyStore" where
  "failing_ConcurrencyStore =
     \<lparr>Acquire = (\<lambda>c key limit. ((False, Some ''connection refused''), c)),
      Release = (\<lambda>c key. (None, c))\<rparr>"

definition lenient_ConcurrencyStore :: "unit ConcurrencyStore" where
  "lenient_ConcurrencyStore =
     \<lparr>Acquire = (\<lambda>c key limit. ((True, Some ''connection refused''), c)),
      Release = (\<lambda>c key. (None, c))\<rparr>"

definition example_config :: RateLimitConfig where
  "example_config =
     \<lparr>cfg_Enabled = True, cfg_Store = ''memory'', cfg_RedisPrefix = ''test:rl:'',
      cfg_DefaultResponseFormat = ''json'', cfg_TrustedProxies = []\<rparr>"

definition example_request :: Request where
  "example_request =
     \<lparr>Method = ''GET'', RemoteAddr = ''1.2.3.4:1234'', Header = (\<lambda>h. []), URL_Path = ''/'',
      URL_Query = [], PostForm = []\<rparr>"

section \<open>Example policies and limiters\<close>

text \<open>Five requests a minute; one request every two hours; a policy whose requests
  cost two tokens; the exports policy of \<^verbatim>\<open>policy.go\<close>.\<close>

definition example_policy :: Policy where
  "example_policy = \<lparr>Limit = 5, Window = 60 * Second, Burst = 0, Scope = ''test'',
     Enabled = True, Cost = 1, ConcurrencyLimit = 0\<rparr>"

definition two_hour_policy :: Policy where
  "two_hour_policy = \<lparr>Limit = 1, Window = 7200 * Second, Burst = 0, Scope = ''reports'',
     Enabled = True, Cost = 1, ConcurrencyLimit = 0\<rparr>"

definition cost2_policy :: Policy where
  "cost2_policy = \<lparr>Limit = 3, Window = 60 * Second, Burst = 0, Scope = ''search'',
     Enabled = True, Cost = 2, ConcurrencyLimit = 0\<rparr>"

definition exports_policy :: Policy where
  "exports_policy = \<lparr>Limit = 10, Window = 60 * Second, Burst = 0, Scope = ''exports'',
     Enabled = True, Cost = 1, ConcurrencyLimit = 1\<rparr>"

text \<open>A policy with the largest limit an \<^verbatim>\<open>int\<close> holds and a burst of one.\<close>

definition overflow_policy :: Policy where
  "overflow_policy = \<lparr>Limit = 9223372036854775807, Window = 60 * Second, Burst = 1,
     Scope = ''test'', Enabled = True, Cost = 1, ConcurrencyLimit = 0\<rparr>"

definition example_store :: RedisStore where
  "example_store = \<lparr>prefix = ''gohst:rl:''\<rparr>"


definition failing_conc_limiter :: "time \<Rightarrow> (MemoryStore, unit) Limiter" where
  "failing_conc_limiter now =
     \<lparr>store = (\<lambda>s key p cost. MemoryStore_Allow s key p cost now),
      concurrencyStore = Some failing_ConcurrencyStore, policy = exports_policy,
      keyFunc = KeyByIP ipv4_net (Some example_config),
      onLimit = None, allowlist = [], logStore = None\<rparr>"

definition lenient_conc_limiter :: "time \<Rightarrow> (MemoryStore, unit) Limiter" where
  "lenient_conc_limiter now =
     \<lparr>store = (\<lambda>s key p cost. MemoryStore_Allow s key p cost now),
      concurrencyStore = Some lenient_ConcurrencyStore, policy = exports_policy,
      keyFunc = KeyByIP ipv4_net (Some example_config),
      onLimit = None, allowlist = [], logStore = None\<rparr>"

definition redis_conc_limiter :: "time \<Rightarrow> (MemoryStore, redis_server) Limiter" where
  "redis_conc_limiter now =
     \<lparr>store = (\<lambda>s key p cost. MemoryStore_Allow s key p cost now),
      concurrencyStore = Some (RedisConcurrencyStore_impl (NewRedisConcurrencyStore ''gohst:rl:'' (30 * Second))),
      policy = exports_policy,
      keyFunc = KeyByIP ipv4_net (Some example_config),
      onLimit = None, allowlist = [], logStore = None\<rparr>"

definition redis_down :: redis_server where
  "redis_down = empty_redis\<lparr>failure := Some ''dial tcp 127.0.0.1:6379: connect: connection refused''\<rparr>"

definition long_key :: string where
  "long_key = ''iproute:10.0.0.1:/api/v1/reports/export/monthly.csv''"

text \<open>Requests from the peer \<^verbatim>\<open>10.0.0.7\<close> with forwarding headers, a configuration that
  trusts \<^verbatim>\<open>10.0.0.0/8\<close>, and a request whose peer address is not an address.\<close>

definition forwarded_request :: "string \<Rightarrow> string \<Rightarrow> Request" where
  "forwarded_request realip xff =
     \<lparr>Method = ''GET'', RemoteAddr = ''10.0.0.7:4711'',
      Header = (\<lambda>h. if h = ''X-Real-IP'' then realip
                    else if h = ''X-Forwarded-For'' then xff else []),
      URL_Path = ''/'', URL_Query = [], PostForm = []\<rparr>"

definition trusting_config :: RateLimitConfig where
  "trusting_config = example_config\<lparr>cfg_TrustedProxies := [''10.0.0.0/8'']\<rparr>"

definition malformed_peer_request :: Request where
  "malformed_peer_request = example_request\<lparr>RemoteAddr := ''not an address''\<rparr>"

section \<open>Properties of the token bucket\<close>

lemma replicate_unfold: "replicate n x = (if n = 0 then [] else x # replicate (n - 1) x)"
  by (cases n) simp_all

lemma Bucket_refill_same_instant: "Bucket_refill b (LastRefill b) = b"
  by (simp add: Bucket_refill_def Seconds_def)

lemma Bucket_Allow_same_instant:
  "Bucket_Allow b 1 (LastRefill b) =
     (if 1 \<le> Tokens b then ((trunc (Tokens b - 1), True), b\<lparr>Tokens := Tokens b - 1\<rparr>)
      else ((0, False), b))"
  by (simp add: Bucket_Allow_def Bucket_refill_same_instant Let_def)

lemma Allow_calls_same_instant:
  "LastRefill b = t \<Longrightarrow> Tokens b = real k \<Longrightarrow>
   map snd (fst (Allow_calls b (replicate n (1, t)))) =
     replicate (min n k) True @ replicate (n - k) False"
proof (induction n arbitrary: b k)
  case 0
  then show ?case by simp
next
  case (Suc n)
  show ?case
  proof (cases k)
    case 0
    with Suc.prems have deny: "Bucket_Allow b 1 t = ((0, False), b)"
      using Bucket_Allow_same_instant [of b] by simp
    have "map snd (fst (Allow_calls b (replicate n (1, t)))) =
            replicate (min n 0) True @ replicate (n - 0) False"
      using Suc.IH [of b 0] Suc.prems 0 by simp
    with deny 0 show ?thesis by (simp add: split_beta)
  next
    case (Suc k')
    define b' where "b' = b\<lparr>Tokens := Tokens b - 1\<rparr>"
    from Suc Suc.prems have ok: "Bucket_Allow b 1 t = ((trunc (Tokens b - 1), True), b')"
      using Bucket_Allow_same_instant [of b] by (simp add: b'_def)
    have "LastRefill b' = t" "Tokens b' = real k'"
      using Suc Suc.prems by (simp_all add: b'_def)
    then have "map snd (fst (Allow_calls b' (replicate n (1, t)))) =
            replicate (min n k') True @ replicate (n - k') False"
      by (rule Suc.IH)
    with ok Suc show ?thesis by (simp add: split_beta)
  qed
qed

lemma MemoryStore_Allow_entry:
  "s key = Some e \<Longrightarrow>
   Allowed (fst (MemoryStore_Allow s key p cost now)) = snd (fst (Bucket_Allow (bucket e) cost now)) \<and>
   (\<exists>e'. snd (MemoryStore_Allow s key p cost now) key = Some e' \<and>
         bucket e' = snd (Bucket_Allow (bucket e) cost now))"
  by (simp add: MemoryStore_Allow_def Let_def split_beta)

lemma MemoryStore_Allow_fresh:
  "s key = None \<Longrightarrow>
   Allowed (fst (MemoryStore_Allow s key p cost now)) = snd (fst (Bucket_Allow (NewBucket p now) cost now)) \<and>
   (\<exists>e'. snd (MemoryStore_Allow s key p cost now) key = Some e' \<and>
         bucket e' = snd (Bucket_Allow (NewBucket p now) cost now))"
  by (simp add: MemoryStore_Allow_def Let_def split_beta)

lemma MemoryStore_calls_follow_bucket:
  "s key = Some e \<Longrightarrow>
   map Allowed (fst (MemoryStore_Allow_calls s key p cs)) = map snd (fst (Allow_calls (bucket e) cs))"
proof (induction cs arbitrary: s e)
  case Nil
  then show ?case by simp
next
  case (Cons c cs)
  obtain cost now where c: "c = (cost, now)" by (cases c)
  from MemoryStore_Allow_entry [of s key e p cost now] Cons.prems
  obtain e' where a: "Allowed (fst (MemoryStore_Allow s key p cost now)) = snd (fst (Bucket_Allow (bucket e) cost now))"
    and e': "snd (MemoryStore_Allow s key p cost now) key = Some e'"
    and b': "bucket e' = snd (Bucket_Allow (bucket e) cost now)" by blast
  from Cons.IH [of "snd (MemoryStore_Allow s key p cost now)" e'] e' b' a show ?case
    by (simp add: c split_beta)
qed

lemma MemoryStore_calls_fresh:
  "s key = None \<Longrightarrow>
   map Allowed (fst (MemoryStore_Allow_calls s key p ((cost, now) # cs))) =
   map snd (fst (Allow_calls (NewBucket p now) ((cost, now) # cs)))"
proof -
  assume fresh: "s key = None"
  from MemoryStore_Allow_fresh [of s key p cost now] fresh
  obtain e' where a: "Allowed (fst (MemoryStore_Allow s key p cost now)) = snd (fst (Bucket_Allow (NewBucket p now) cost now))"
    and e': "snd (MemoryStore_Allow s key p cost now) key = Some e'"
    and b': "bucket e' = snd (Bucket_Allow (NewBucket p now) cost now)" by blast
  from MemoryStore_calls_follow_bucket [of "snd (MemoryStore_Allow s key p cost now)" key e' p cs] e' b' a show ?thesis
    by (simp add: split_beta)
qed

lemma wrap64_id:
  "- 9223372036854775808 \<le> n \<Longrightarrow> n < 9223372036854775808 \<Longrightarrow> wrap64 n = n"
  by (simp add: wrap64_def)

lemma NewBucket_in_range:
  assumes "0 < Limit p" and "0 \<le> Burst p" and "Limit p + Burst p \<le> 9007199254740992"
  shows "Tokens (NewBucket p t) = real_of_int (Limit p + Burst p)"
    and "MaxTokens (NewBucket p t) = real_of_int (Limit p + Burst p)"
    and "LastRefill (NewBucket p t) = t"
  using assms wrap64_id [of "Limit p + Burst p"] by (simp_all add: NewBucket_def Let_def)

text \<open>
  Claim C1 (amended). For a policy with positive limit and non-negative burst whose sum
  \<open>limit + burst\<close> is at most \<open>2^53\<close>, a freshly created bucket that receives \<open>n\<close>
  \<^verbatim>\<open>Allow\<close> calls of cost 1, all at the instant \<open>t\<close> of its creation, allows exactly
  the first \<open>limit + burst\<close> calls and denies every later one. The same holds for the
  calls of \<^verbatim>\<open>MemoryStore.Allow\<close> on a key the store has not seen. Within the bound the
  sum does not wrap around and \<^verbatim>\<open>float64\<close> counts the tokens exactly.
\<close>

theorem C1_fresh_bucket_admits_exactly_max:
  assumes "0 < Limit p" and "0 \<le> Burst p" and "Limit p + Burst p \<le> 9007199254740992"
    and "s key = None"
  shows "map snd (fst (Allow_calls (NewBucket p t) (replicate n (1, t)))) =
           replicate (min n (nat (Limit p + Burst p))) True @
           replicate (n - nat (Limit p + Burst p)) False
       \<and> map Allowed (fst (MemoryStore_Allow_calls s key p (replicate n (1, t)))) =
           replicate (min n (nat (Limit p + Burst p))) True @
           replicate (n - nat (Limit p + Burst p)) False"
proof -
  have tok: "Tokens (NewBucket p t) = real (nat (Limit p + Burst p))"
    using assms(1,2) NewBucket_in_range(1) [OF assms(1-3), of t] by simp
  have lr: "LastRefill (NewBucket p t) = t"
    by (rule NewBucket_in_range(3) [OF assms(1-3)])
  have first: "map snd (fst (Allow_calls (NewBucket p t) (replicate n (1, t)))) =
           replicate (min n (nat (Limit p + Burst p))) True @
           replicate (n - nat (Limit p + Burst p)) False"
    by (rule Allow_calls_same_instant [OF lr tok])
  have "map Allowed (fst (MemoryStore_Allow_calls s key p (replicate n (1, t)))) =
        map snd (fst (Allow_calls (NewBucket p t) (replicate n (1, t))))"
  proof (cases n)
    case 0
    then show ?thesis by simp
  next
    case (Suc m)
    then show ?thesis
      using MemoryStore_calls_fresh [of s key p 1 t "replicate m (1, t)"] assms(4) by simp
  qed
  with first show ?thesis by simp
qed

theorem C1_fresh_bucket_admits_exactly_max_witness:
  "0 < Limit example_policy \<and> 0 \<le> Burst example_policy
   \<and> Limit example_policy + Burst example_policy \<le> 9007199254740992
   \<and> map snd (fst (Allow_calls (NewBucket example_policy 7) (replicate 7 (1, 7)))) =
       [True, True, True, True, True, False, False]
   \<and> map Allowed (fst (MemoryStore_Allow_calls Map.empty ''ip:1.2.3.4'' example_policy
         (replicate 7 (1, 7)))) = [True, True, True, True, True, False, False]"
  using C1_fresh_bucket_admits_exactly_max [of example_policy Map.empty "''ip:1.2.3.4''" 7 7]
  by (simp add: example_policy_def replicate_unfold)

text \<open>
  Claim C1 as stated fails: the limit \<open>2^63 - 1\<close> is positive and the burst \<open>1\<close> is
  not negative, but their sum wraps around to \<open>-2^63\<close>. The new bucket holds that many
  tokens and denies the very first call of cost 1, where the claim has the first
  \<open>2^63\<close> calls allowed.
\<close>

theorem C1_counterexample:
  "0 < Limit overflow_policy \<and> 0 \<le> Burst overflow_policy
   \<and> Tokens (NewBucket overflow_policy 0) = - 9223372036854775808
   \<and> map snd (fst (Allow_calls (NewBucket overflow_policy 0) (replicate 3 (1, 0)))) =
       [False, False, False]
   \<and> map Allowed (fst (MemoryStore_Allow_calls Map.empty ''ip:1.2.3.4'' overflow_policy
         (replicate 3 (1, 0)))) = [False, False, False]"
  by (simp add: overflow_policy_def wrap64_def NewBucket_def Bucket_Allow_def Bucket_refill_def
      MemoryStore_Allow_def Seconds_def Second_def Let_def replicate_unfold)

lemma Seconds_pos: "0 < d \<Longrightarrow> 0 < Seconds d"
  by (simp add: Seconds_def)

lemma NewBucket_ok:
  assumes "0 < Limit p" and "0 \<le> Burst p" and "Limit p + Burst p \<le> 9007199254740992"
    and "0 < Window p"
  shows "bucket_ok (NewBucket p t)"
proof -
  have "0 \<le> RefillRate (NewBucket p t)"
    using assms(1) Seconds_pos [OF assms(4)] by (simp add: NewBucket_def Let_def)
  with assms(1,2) NewBucket_in_range(1,2) [OF assms(1-3), of t] show ?thesis
    by (simp add: bucket_ok_def)
qed

lemma Bucket_refill_ok:
  assumes "bucket_ok b"
  shows "bucket_ok (Bucket_refill b now)"
proof (cases "Seconds (now - LastRefill b) \<le> 0")
  case True
  with assms show ?thesis by (simp add: Bucket_refill_def)
next
  case False
  then have "0 \<le> Seconds (now - LastRefill b) * RefillRate b"
    using assms by (simp add: bucket_ok_def)
  with False assms show ?thesis
    by (simp add: Bucket_refill_def bucket_ok_def Let_def min_def)
qed

lemma Bucket_refill_fields:
  "MaxTokens (Bucket_refill b now) = MaxTokens b"
  "RefillRate (Bucket_refill b now) = RefillRate b"
  "LastRefill b \<le> LastRefill (Bucket_refill b now)"
  by (simp_all add: Bucket_refill_def Let_def Seconds_def)

lemma Bucket_Allow_ok:
  assumes "bucket_ok b" and "0 \<le> cost"
  shows "bucket_ok (snd (Bucket_Allow b cost now))"
  using Bucket_refill_ok [OF assms(1), of now] assms(2)
  by (simp add: Bucket_Allow_def Let_def bucket_ok_def)

lemma Bucket_Allow_fields:
  "MaxTokens (snd (Bucket_Allow b cost now)) = MaxTokens b"
  "RefillRate (snd (Bucket_Allow b cost now)) = RefillRate b"
  "LastRefill b \<le> LastRefill (snd (Bucket_Allow b cost now))"
  using Bucket_refill_fields [of b now] by (simp_all add: Bucket_Allow_def Let_def)

lemma apply_bucket_op_ok:
  "bucket_ok b \<Longrightarrow> 0 \<le> op_cost x \<Longrightarrow> bucket_ok (apply_bucket_op b x)"
  by (cases x) (simp_all add: Bucket_refill_ok Bucket_Allow_ok)

lemma apply_bucket_op_fields:
  "MaxTokens (apply_bucket_op b x) = MaxTokens b"
  "LastRefill b \<le> LastRefill (apply_bucket_op b x)"
  by (cases x; simp add: Bucket_refill_fields Bucket_Allow_fields)+

lemma bucket_trace_ok:
  "bucket_ok b \<Longrightarrow> \<forall>x\<in>set ops. 0 \<le> op_cost x \<Longrightarrow>
   \<forall>b'\<in>set (bucket_trace b ops). bucket_ok b' \<and> MaxTokens b' = MaxTokens b \<and> LastRefill b \<le> LastRefill b'"
proof (induction ops arbitrary: b)
  case Nil
  then show ?case by simp
next
  case (Cons x xs)
  have "bucket_ok (apply_bucket_op b x)"
    using Cons.prems by (simp add: apply_bucket_op_ok)
  then have "\<forall>b'\<in>set (bucket_trace (apply_bucket_op b x) xs).
      bucket_ok b' \<and> MaxTokens b' = MaxTokens (apply_bucket_op b x) \<and>
      LastRefill (apply_bucket_op b x) \<le> LastRefill b'"
    using Cons.prems by (intro Cons.IH) simp_all
  then show ?case
    using Cons.prems(1) apply_bucket_op_fields [of b x] by fastforce
qed

lemma bucket_trace_sorted:
  "bucket_ok b \<Longrightarrow> \<forall>x\<in>set ops. 0 \<le> op_cost x \<Longrightarrow> sorted (map LastRefill (bucket_trace b ops))"
proof (induction ops arbitrary: b)
  case Nil
  then show ?case by simp
next
  case (Cons x xs)
  have ok: "bucket_ok (apply_bucket_op b x)"
    using Cons.prems by (simp add: apply_bucket_op_ok)
  have later: "\<forall>b'\<in>set (bucket_trace (apply_bucket_op b x) xs). LastRefill (apply_bucket_op b x) \<le> LastRefill b'"
    using bucket_trace_ok [OF ok, of xs] Cons.prems(2) by simp
  have "sorted (map LastRefill (bucket_trace (apply_bucket_op b x) xs))"
    using ok Cons.prems(2) by (intro Cons.IH) simp_all
  with later apply_bucket_op_fields(2) [of b x] show ?case
    by fastforce
qed

text \<open>
  Claim C4 (amended). For a bucket created from a valid policy (positive limit,
  non-negative burst and positive window) whose sum \<open>limit + burst\<close> is at most
  \<open>2^53\<close>, and every sequence of refill and \<^verbatim>\<open>Allow\<close> operations with non-negative
  costs at arbitrary, possibly non-monotonic times: every bucket visited has its tokens
  within \<open>[0, max_tokens]\<close>, with \<open>max_tokens = limit + burst\<close>, and \<open>last_refill\<close>
  never moves backwards. The middleware passes costs of at least 1.
\<close>

theorem C4_bucket_invariants:
  assumes "0 < Limit p" and "0 \<le> Burst p" and "Limit p + Burst p \<le> 9007199254740992"
    and "0 < Window p"
    and "\<forall>x\<in>set ops. 0 \<le> op_cost x"
  shows "(\<forall>b\<in>set (bucket_trace (NewBucket p t) ops).
            0 \<le> Tokens b \<and> Tokens b \<le> MaxTokens b \<and> MaxTokens b = real_of_int (Limit p + Burst p))
       \<and> sorted (map LastRefill (bucket_trace (NewBucket p t) ops))"
proof -
  have ok: "bucket_ok (NewBucket p t)"
    using assms(1-4) by (rule NewBucket_ok)
  have mx: "MaxTokens (NewBucket p t) = real_of_int (Limit p + Burst p)"
    by (rule NewBucket_in_range(2) [OF assms(1-3)])
  have "\<forall>b\<in>set (bucket_trace (NewBucket p t) ops).
            0 \<le> Tokens b \<and> Tokens b \<le> MaxTokens b \<and> MaxTokens b = real_of_int (Limit p + Burst p)"
  proof
    fix b assume "b \<in> set (bucket_trace (NewBucket p t) ops)"
    with bucket_trace_ok [OF ok assms(5)]
    have "bucket_ok b" and "MaxTokens b = MaxTokens (NewBucket p t)" by blast+
    with mx show "0 \<le> Tokens b \<and> Tokens b \<le> MaxTokens b \<and> MaxTokens b = real_of_int (Limit p + Burst p)"
      by (simp add: bucket_ok_def)
  qed
  with bucket_trace_sorted [OF ok assms(5)] show ?thesis by (intro conjI)
qed

theorem C4_bucket_invariants_witness:
  "0 < Limit example_policy \<and> 0 \<le> Burst example_policy
   \<and> Limit example_policy + Burst example_policy \<le> 9007199254740992
   \<and> 0 < Window example_policy
   \<and> list_all (\<lambda>x. 0 \<le> op_cost x)
         [AllowOp 2 (3 * Second), Refill (1 * Second), AllowOp 4 (90 * Second)]
   \<and> list_all (\<lambda>b. 0 \<le> Tokens b \<and> Tokens b \<le> MaxTokens b \<and> MaxTokens b = 5)
         (bucket_trace (NewBucket example_policy 0)
            [AllowOp 2 (3 * Second), Refill (1 * Second), AllowOp 4 (90 * Second)])
   \<and> sorted (map LastRefill (bucket_trace (NewBucket example_policy 0)
         [AllowOp 2 (3 * Second), Refill (1 * Second), AllowOp 4 (90 * Second)]))"
  using C4_bucket_invariants [of example_policy
      "[AllowOp 2 (3 * Second), Refill (1 * Second), AllowOp 4 (90 * Second)]" 0]
  by (simp add: example_policy_def Second_def list_all_iff)

text \<open>
  Claim C4 as stated fails: with limit \<open>2^63 - 1\<close>, burst \<open>1\<close> and a window of one
  minute, a valid policy in the terms of the claim, the sum wraps around and the new
  bucket has \<open>tokens = max_tokens = -2^63\<close>, below zero and not \<open>limit + burst\<close>; an
  \<^verbatim>\<open>Allow\<close> of cost 1 is denied and leaves the tokens there.
\<close>

theorem C4_counterexample:
  "0 < Limit overflow_policy \<and> 0 \<le> Burst overflow_policy \<and> 0 < Window overflow_policy
   \<and> map Tokens (bucket_trace (NewBucket overflow_policy 0) [AllowOp 1 0]) =
       [- 9223372036854775808, - 9223372036854775808]
   \<and> map MaxTokens (bucket_trace (NewBucket overflow_policy 0) [AllowOp 1 0]) =
       [- 9223372036854775808, - 9223372036854775808]
   \<and> Limit overflow_policy + Burst overflow_policy = 9223372036854775808"
  by (simp add: overflow_policy_def wrap64_def NewBucket_def Bucket_Allow_def Bucket_refill_def
      Seconds_def Second_def Let_def)


section \<open>Properties of the stores\<close>

text \<open>What the in-memory store returns on a denial: no remaining tokens, and, for a
  bucket within its bounds that refills at the rate of the policy, a retry-after between
  \<open>1\<close> and \<open>\<lceil>cost / refill_rate\<rceil>\<close>. On the Redis store the lower bound holds as well.\<close>

lemma MemoryStore_denied_Remaining:
  "\<not> Allowed (fst (MemoryStore_Allow s key p cost now)) \<Longrightarrow>
   Remaining (fst (MemoryStore_Allow s key p cost now)) = 0"
  by (simp add: MemoryStore_Allow_def Bucket_Allow_def Let_def split_beta split: if_splits)

lemma RedisStore_denied_RetryAfter_ge_1:
  "\<not> Allowed (fst (RedisStore_Allow rs srv key p cost now)) \<Longrightarrow>
   1 \<le> RetryAfter (fst (RedisStore_Allow rs srv key p cost now))"
  by (auto simp: RedisStore_Allow_def Let_def split: prod.splits sum.splits)

lemma trunc_of_int: "trunc (real_of_int n) = n"
  by (simp add: trunc_def)

lemma Bucket_denied_RetryAfter_bounds:
  assumes ok: "bucket_ok b" and rate: "0 < RefillRate b"
    and denied: "\<not> snd (fst (Bucket_Allow b cost now))"
  shows "1 \<le> trunc (Bucket_RetryAfter (snd (Bucket_Allow b cost now)) cost)
       \<and> trunc (Bucket_RetryAfter (snd (Bucket_Allow b cost now)) cost)
           \<le> \<lceil>real_of_int cost / RefillRate b\<rceil>"
proof -
  define b1 where "b1 = Bucket_refill b now"
  have ok1: "bucket_ok b1" unfolding b1_def using ok by (rule Bucket_refill_ok)
  have r1: "RefillRate b1 = RefillRate b" by (simp add: b1_def Bucket_refill_fields)
  from denied have lt: "Tokens b1 < real_of_int cost" and b': "snd (Bucket_Allow b cost now) = b1"
    by (simp_all add: Bucket_Allow_def Let_def b1_def split: if_splits)
  define deficit where "deficit = real_of_int cost - Tokens b1"
  have d: "0 < deficit" "deficit \<le> real_of_int cost"
    using lt ok1 by (simp_all add: deficit_def bucket_ok_def)
  have ra: "Bucket_RetryAfter b1 cost = real_of_int \<lceil>deficit / RefillRate b\<rceil>"
    using d(1) rate r1 by (simp add: Bucket_RetryAfter_def Let_def deficit_def)
  have "0 < deficit / RefillRate b" using d(1) rate by simp
  then have lower: "1 \<le> \<lceil>deficit / RefillRate b\<rceil>" by linarith
  have "deficit / RefillRate b \<le> real_of_int cost / RefillRate b"
    using d(2) rate by (simp add: divide_right_mono)
  then have upper: "\<lceil>deficit / RefillRate b\<rceil> \<le> \<lceil>real_of_int cost / RefillRate b\<rceil>"
    by (rule ceiling_mono)
  from lower upper show ?thesis
    by (simp add: b' ra trunc_of_int)
qed

lemma MemoryStore_Allow_Allowed:
  "Allowed (fst (MemoryStore_Allow s key p cost now)) =
   snd (fst (Bucket_Allow (case s key of None \<Rightarrow> NewBucket p now | Some e \<Rightarrow> bucket e) cost now))"
  by (cases "s key") (simp_all add: MemoryStore_Allow_def Let_def split_beta)

lemma MemoryStore_Allow_RetryAfter:
  "\<not> Allowed (fst (MemoryStore_Allow s key p cost now)) \<Longrightarrow>
   RetryAfter (fst (MemoryStore_Allow s key p cost now)) =
     max 1 (trunc (Bucket_RetryAfter
        (snd (Bucket_Allow (case s key of None \<Rightarrow> NewBucket p now | Some e \<Rightarrow> bucket e) cost now)) cost))"
  by (cases "s key") (auto simp: MemoryStore_Allow_def Let_def split_beta max_def)

lemma MemoryStore_denied_RetryAfter_bounds:
  assumes "0 < Limit p" and "0 \<le> Burst p" and "Limit p + Burst p \<le> 9007199254740992"
    and "0 < Window p"
    and entry: "case s key of None \<Rightarrow> True
                | Some e \<Rightarrow> bucket_ok (bucket e) \<and>
                    RefillRate (bucket e) = real_of_int (Limit p) / Seconds (Window p)"
    and denied: "\<not> Allowed (fst (MemoryStore_Allow s key p cost now))"
  shows "1 \<le> RetryAfter (fst (MemoryStore_Allow s key p cost now))
       \<and> RetryAfter (fst (MemoryStore_Allow s key p cost now))
           \<le> \<lceil>real_of_int cost / (real_of_int (Limit p) / Seconds (Window p))\<rceil>"
proof -
  define b where "b = (case s key of None \<Rightarrow> NewBucket p now | Some e \<Rightarrow> bucket e)"
  have ok: "bucket_ok b"
    using entry NewBucket_ok [OF assms(1-4), of now] by (simp add: b_def split: option.splits)
  have rate: "RefillRate b = real_of_int (Limit p) / Seconds (Window p)"
    using entry by (simp add: b_def NewBucket_def Let_def split: option.splits)
  have pos: "0 < RefillRate b"
    using assms(1,4) Seconds_pos [of "Window p"] by (simp add: rate)
  have den: "\<not> snd (fst (Bucket_Allow b cost now))"
    using denied by (simp add: MemoryStore_Allow_Allowed b_def)
  have ra: "RetryAfter (fst (MemoryStore_Allow s key p cost now)) =
      max 1 (trunc (Bucket_RetryAfter (snd (Bucket_Allow b cost now)) cost))"
    using denied by (simp add: MemoryStore_Allow_RetryAfter b_def)
  from Bucket_denied_RetryAfter_bounds [OF ok pos den] show ?thesis
    by (simp add: ra rate)
qed

lemma Sprintf_4f_two_hours: "Sprintf_4f (1 / 7200) = 1 / 10000"
  by (simp add: Sprintf_4f_def round_half_even_def Let_def)

lemma Sprintf_4f_tie: "Sprintf_4f (1 / 32) = 312 / 10000"
  by (simp add: Sprintf_4f_def round_half_even_def Let_def)

lemma Sprintf_4f_one: "Sprintf_4f 1 = 1"
  by (simp add: Sprintf_4f_def round_half_even_def Let_def)

text \<open>
  Claim C2 fails on the Redis store. Under a policy of one request per two hours the
  refill rate \<open>1/7200\<close> reaches the script as \<open>0.0001\<close>: the second request at the
  same instant is denied with \<^verbatim>\<open>RetryAfter = 10000\<close>, above the bound
  \<open>\<lceil>cost / refill_rate\<rceil> = 7200\<close> of the claim.
\<close>

theorem C2_redis_retry_after_exceeds_bound:
  "map Allowed (fst (RedisStore_Allow_calls example_store empty_redis ''ip:1.2.3.4''
        two_hour_policy [(1, 0), (1, 0)])) = [True, False]
   \<and> map RetryAfter (fst (RedisStore_Allow_calls example_store empty_redis ''ip:1.2.3.4''
        two_hour_policy [(1, 0), (1, 0)])) = [0, 10000]
   \<and> \<lceil>real_of_int 1 / (real_of_int (Limit two_hour_policy) / Seconds (Window two_hour_policy))\<rceil> = 7200"
  by (simp add: RedisStore_Allow_def luaTokenBucket_Run_def luaTokenBucket_def empty_redis_def
      example_store_def two_hour_policy_def Second_def Seconds_def UnixMilli_def trunc_def quot_def
      Sprintf_4f_def round_half_even_def Let_def)

text \<open>
  Claim C3 fails on the Redis store. With three tokens and requests of cost 2, the
  second request is denied with one token left: the script returns
  \<^verbatim>\<open>remaining = math.floor(tokens) = 1\<close>, where the in-memory store returns \<open>0\<close> for the
  same calls.
\<close>

theorem C3_redis_denial_reports_tokens:
  "map Allowed (fst (RedisStore_Allow_calls example_store empty_redis ''ip:1.2.3.4''
        cost2_policy [(2, 0), (2, 0)])) = [True, False]
   \<and> map Remaining (fst (RedisStore_Allow_calls example_store empty_redis ''ip:1.2.3.4''
        cost2_policy [(2, 0), (2, 0)])) = [1, 1]
   \<and> map Allowed (fst (MemoryStore_Allow_calls Map.empty ''ip:1.2.3.4''
        cost2_policy [(2, 0), (2, 0)])) = [True, False]
   \<and> map Remaining (fst (MemoryStore_Allow_calls Map.empty ''ip:1.2.3.4''
        cost2_policy [(2, 0), (2, 0)])) = [1, 0]"
  by (simp add: RedisStore_Allow_def luaTokenBucket_Run_def luaTokenBucket_def empty_redis_def
      example_store_def cost2_policy_def Second_def Seconds_def UnixMilli_def trunc_def quot_def
      Sprintf_4f_def round_half_even_def Let_def
      MemoryStore_Allow_def NewBucket_def wrap64_def Bucket_Allow_def Bucket_refill_def
      Bucket_RetryAfter_def Bucket_ResetUnix_def Unix_def)





section \<open>Properties of the middleware\<close>

text \<open>
  Claim C7 (amended). The key written to the denial log line and to the
  \<^verbatim>\<open>KeyHash\<close> field of the log entry is \<^verbatim>\<open>truncateKey(key)\<close>: the whole key when its
  length is at most 40, and otherwise its first 40 characters followed by three dots.
\<close>

theorem C7_truncateKey_appends_ellipsis:
  "truncateKey key = (if length key \<le> 40 then key else take 40 key @ ''...'')
   \<and> hd (fst (snd (denyResponse l net cfg r hs result key keyType reason))) =
       Log_DENIED (Method r) (URL_Path r) keyType (Scope (policy l)) (truncateKey key)
         (RetryAfter result) reason
   \<and> map KeyHash (snd (snd (denyResponse l net cfg r hs result key keyType reason))) =
       (case logStore l of None \<Rightarrow> [] | Some ls \<Rightarrow> [truncateKey key])"
  by (simp add: truncateKey_def denyResponse_def Let_def split: option.split)

theorem C7_truncateKey_appends_ellipsis_witness:
  "truncateKey ''ip:1.2.3.4'' = ''ip:1.2.3.4''
   \<and> truncateKey long_key = ''iproute:10.0.0.1:/api/v1/reports/export/...''"
  using C7_truncateKey_appends_ellipsis [of "''ip:1.2.3.4''", THEN conjunct1]
    C7_truncateKey_appends_ellipsis [of long_key, THEN conjunct1]
  by (simp add: long_key_def)

text \<open>
  Claim C7 as stated fails: for a key of 51 characters the logged key is not the
  first 40 characters of the key; it has 43 characters.
\<close>

theorem C7_counterexample:
  "length long_key = 51
   \<and> truncateKey long_key \<noteq> take 40 long_key
   \<and> length (truncateKey long_key) = 43"
  by (simp add: truncateKey_def long_key_def)

lemma RedisConcurrencyStore_Acquire_error:
  "failure srv = Some err \<Longrightarrow> RedisConcurrencyStore_Acquire rc srv key limit = ((True, None), srv)"
  by (simp add: RedisConcurrencyStore_Acquire_def)

lemma KeyByIP_example:
  "KeyByIP ipv4_net (Some example_config) example_request = (''ip:1.2.3.4'', ''ip'')"
  by (simp add: KeyByIP_def KeyTypeIP_def ClientIP_def example_config_def example_request_def
      extractIP_def normalizeIP_def ipv4_net_def ipv4_SplitHostPort_def ipv4_ParseIP_def
      parse_octet_def parse_dec_def isDigit_def ipv4_String_def show_octet_def digit_char_def
      TrimSpace_def isSpace_def Let_def char_of_eq_iff)

text \<open>
  Claim C9 (amended). Under an enabled policy with a positive concurrency limit and a
  configured concurrency store, for a request that no allowlist rule matches, the
  middleware decides on the \<^verbatim>\<open>ok\<close> value that \<^verbatim>\<open>Acquire\<close> returns and only logs the
  error. Whatever the error, with \<^verbatim>\<open>ok = true\<close> the answer is the answer of the
  rate-limit check, so the downstream handler runs when the store allows the request,
  and with \<^verbatim>\<open>ok = false\<close> the request is denied for concurrency: the handler does not
  run and, unless the \<^verbatim>\<open>onLimit\<close> callback takes the request, the status is 429. The
  error adds one line to the log and nothing else. Concurrency-store errors are
  fail-open on the Redis store because \<^verbatim>\<open>RedisConcurrencyStore.Acquire\<close> itself returns
  \<^verbatim>\<open>(true, nil)\<close> when its script fails.
\<close>

theorem C9_acquire_ok_decides:
  assumes "cfg_Enabled cfg" and "Enabled (policy l)"
    and "\<not> list_ex (\<lambda>rule. rule r) (allowlist l)"
    and "0 < ConcurrencyLimit (policy l)"
    and "concurrencyStore l = Some cs"
    and "keyFunc l r = (key, keyType)"
    and "cost = (if Cost (policy l) < 1 then 1 else Cost (policy l))"
    and "Acquire cs c key (ConcurrencyLimit (policy l)) = ((ok, err), c1)"
  shows "map_option response (Middleware l net (Some cfg) r s c) =
           Some (if ok then fst (fst (rate_check l net cfg r key keyType cost s))
                 else fst (denyResponse l net cfg r []
                        \<lparr>Allowed = False, Result_Limit = ConcurrencyLimit (policy l),
                         Remaining = 0, RetryAfter = 1, ResetAt = 0\<rparr>
                        key keyType ''concurrency''))
       \<and> map_option log_lines (Middleware l net (Some cfg) r s c) =
           Some ((case err of None \<Rightarrow> []
                  | Some e \<Rightarrow> [Log_concurrency_store_error (truncateKey key) e]) @
                 (if ok
                  then fst (snd (fst (rate_check l net cfg r key keyType cost s))) @
                       (case fst (Release cs c1 key) of None \<Rightarrow> []
                        | Some e \<Rightarrow> [Log_concurrency_release_error (truncateKey key) e])
                  else fst (snd (denyResponse l net cfg r []
                        \<lparr>Allowed = False, Result_Limit = ConcurrencyLimit (policy l),
                         Remaining = 0, RetryAfter = 1, ResetAt = 0\<rparr>
                        key keyType ''concurrency''))))
       \<and> (ok \<and> Allowed (fst (store l s key (policy l) cost)) \<longrightarrow>
            map_option (\<lambda>out. (next_called (response out), status (response out)))
              (Middleware l net (Some cfg) r s c) = Some (True, None))
       \<and> (\<not> ok \<longrightarrow>
            map_option (\<lambda>out. next_called (response out))
              (Middleware l net (Some cfg) r s c) = Some False)
       \<and> (\<not> ok \<and> onLimit l = None \<longrightarrow>
            map_option (\<lambda>out. status (response out))
              (Middleware l net (Some cfg) r s c) = Some (Some 429))
       \<and> (failure srv = Some e' \<longrightarrow>
            Acquire (RedisConcurrencyStore_impl rc) srv k n = ((True, None), srv))"
proof -
  define deny where "deny = denyResponse l net cfg r []
      \<lparr>Allowed = False, Result_Limit = ConcurrencyLimit (policy l),
       Remaining = 0, RetryAfter = 1, ResetAt = 0\<rparr> key keyType ''concurrency''"
  define rate where "rate = rate_check l net cfg r key keyType cost s"
  define errline where "errline = (case err of None \<Rightarrow> []
      | Some e \<Rightarrow> [Log_concurrency_store_error (truncateKey key) e])"
  define relline where "relline = (case fst (Release cs c1 key) of None \<Rightarrow> []
      | Some e \<Rightarrow> [Log_concurrency_release_error (truncateKey key) e])"
  have out: "Middleware l net (Some cfg) r s c =
      Some (if ok
            then \<lparr>response = fst (fst rate), log_lines = errline @ fst (snd (fst rate)) @ relline,
                  log_entries = snd (snd (fst rate)), store_state = snd rate,
                  conc_state = snd (Release cs c1 key)\<rparr>
            else \<lparr>response = fst deny, log_lines = errline @ fst (snd deny),
                  log_entries = snd (snd deny), store_state = s, conc_state = c1\<rparr>)"
    using assms
    by (simp add: Middleware_def Let_def split_beta deny_def rate_def errline_def relline_def
        cong: option.case_cong)
  have resp: "map_option response (Middleware l net (Some cfg) r s c) =
      Some (if ok then fst (fst rate) else fst deny)"
    by (simp add: out)
  have logs: "map_option log_lines (Middleware l net (Some cfg) r s c) =
      Some (errline @ (if ok then fst (snd (fst rate)) @ relline else fst (snd deny)))"
    by (simp add: out)
  have admit: "ok \<and> Allowed (fst (store l s key (policy l) cost)) \<longrightarrow>
      map_option (\<lambda>out. (next_called (response out), status (response out)))
        (Middleware l net (Some cfg) r s c) = Some (True, None)"
    by (simp add: out rate_def rate_check_def next_ServeHTTP_def Let_def split_beta)
  have nocall: "\<not> ok \<longrightarrow>
      map_option (\<lambda>out. next_called (response out)) (Middleware l net (Some cfg) r s c) = Some False"
    by (simp add: out deny_def denyResponse_def Let_def split_beta)
  have st429: "\<not> ok \<and> onLimit l = None \<longrightarrow>
      map_option (\<lambda>out. status (response out)) (Middleware l net (Some cfg) r s c) = Some (Some 429)"
    by (simp add: out deny_def denyResponse_def Let_def split_beta)
  have redis: "failure srv = Some e' \<longrightarrow>
      Acquire (RedisConcurrencyStore_impl rc) srv k n = ((True, None), srv)"
    by (simp add: RedisConcurrencyStore_impl_def RedisConcurrencyStore_Acquire_error)
  from resp logs admit nocall st429 redis show ?thesis
    unfolding deny_def rate_def errline_def relline_def by (intro conjI)
qed

text \<open>The theorem at a store whose \<^verbatim>\<open>Acquire\<close> returns \<^verbatim>\<open>(true, err)\<close>: the error is
  logged and the request reaches the downstream handler. A middleware that denied on
  any error would answer 429 here.\<close>

theorem C9_acquire_ok_decides_witness:
  "Acquire lenient_ConcurrencyStore () ''ip:1.2.3.4'' 1 = ((True, Some ''connection refused''), ())
   \<and> map_option (\<lambda>out. (next_called (response out), status (response out)))
         (Middleware (lenient_conc_limiter 0) ipv4_net (Some example_config) example_request
            Map.empty ()) = Some (True, None)
   \<and> map_option log_lines
         (Middleware (lenient_conc_limiter 0) ipv4_net (Some example_config) example_request
            Map.empty ()) = Some [Log_concurrency_store_error ''ip:1.2.3.4'' ''connection refused'']
   \<and> failure redis_down = Some ''dial tcp 127.0.0.1:6379: connect: connection refused''
   \<and> Acquire (RedisConcurrencyStore_impl (NewRedisConcurrencyStore ''gohst:rl:'' (30 * Second)))
         redis_down ''ip:1.2.3.4'' 1 = ((True, None), redis_down)"
  using C9_acquire_ok_decides [of example_config "lenient_conc_limiter 0" example_request
      lenient_ConcurrencyStore "''ip:1.2.3.4''" "''ip''" 1 "()" True "Some ''connection refused''" "()"
      ipv4_net Map.empty redis_down "''dial tcp 127.0.0.1:6379: connect: connection refused''"
      "NewRedisConcurrencyStore ''gohst:rl:'' (30 * Second)" "''ip:1.2.3.4''" 1]
  by (simp add: lenient_conc_limiter_def lenient_ConcurrencyStore_def exports_policy_def
      KeyByIP_example redis_down_def empty_redis_def rate_check_def truncateKey_def
      MemoryStore_Allow_def NewBucket_def wrap64_def Bucket_Allow_def Bucket_refill_def
      Seconds_def Second_def Let_def example_config_def [symmetric])
     (simp add: example_config_def)

text \<open>
  Claim C9 as stated fails: the middleware logs the error of \<^verbatim>\<open>Acquire\<close> and then
  decides on \<^verbatim>\<open>ok\<close> alone. With a concurrency store that returns
  \<^verbatim>\<open>(false, err)\<close> the request is answered with status 429 and reason
  \<^verbatim>\<open>concurrency\<close>, and the downstream handler is not called.
\<close>

theorem C9_counterexample:
  "map_option (\<lambda>out. (status (response out), next_called (response out), log_lines out))
     (Middleware (failing_conc_limiter 0) ipv4_net (Some example_config) example_request
        Map.empty ()) =
   Some (Some 429, False,
         [Log_concurrency_store_error ''ip:1.2.3.4'' ''connection refused'',
          Log_DENIED ''GET'' ''/'' ''ip'' ''exports'' ''ip:1.2.3.4'' 1 ''concurrency''])"
  by (simp add: Middleware_def failing_conc_limiter_def failing_ConcurrencyStore_def
      exports_policy_def KeyByIP_example denyResponse_def truncateKey_def Let_def
      example_config_def [symmetric])
     (simp add: example_config_def example_request_def)

section \<open>Properties of client IP resolution\<close>

lemmas ipv4_eval =
  ipv4_net_def ipv4_SplitHostPort_def ipv4_ParseIP_def ipv4_ParseCIDR_def ipv4_Contains_def
  parse_octet_def parse_dec_def isDigit_def ipv4_String_def show_octet_def digit_char_def
  TrimSpace_def isSpace_def char_of_eq_iff

text \<open>
  Claim C6. When the list of trusted proxies is empty (or the configuration is absent),
  \<^verbatim>\<open>ClientIP\<close> returns the normalised peer IP, that is \<^verbatim>\<open>RemoteAddr\<close> with the port
  stripped; two requests with the same \<^verbatim>\<open>RemoteAddr\<close> resolve to the same client IP
  whatever their headers are.
\<close>

theorem C6_no_trusted_proxies_peer_ip:
  assumes "(case cfg of None \<Rightarrow> [] | Some c \<Rightarrow> cfg_TrustedProxies c) = []"
  shows "ClientIP net cfg r = normalizeIP net (extractIP net (RemoteAddr r))
       \<and> (RemoteAddr r' = RemoteAddr r \<longrightarrow> ClientIP net cfg r' = ClientIP net cfg r)"
  using assms by (simp add: ClientIP_def Let_def)

theorem C6_no_trusted_proxies_peer_ip_witness:
  "ClientIP ipv4_net (Some example_config) (forwarded_request [] ''203.0.113.9, 10.0.0.2'') = ''10.0.0.7''
   \<and> ClientIP ipv4_net (Some example_config) (forwarded_request ''198.51.100.1'' ''8.8.8.8'') = ''10.0.0.7''"
  using C6_no_trusted_proxies_peer_ip [of "Some example_config" ipv4_net
      "forwarded_request [] ''203.0.113.9, 10.0.0.2''" "forwarded_request ''198.51.100.1'' ''8.8.8.8''"]
  by (simp add: example_config_def forwarded_request_def extractIP_def normalizeIP_def ipv4_eval)

lemma dropWhile_id: "xs = [] \<or> \<not> P (hd xs) \<Longrightarrow> dropWhile P xs = xs"
  by (cases xs) auto

lemma last_dropWhile_eq: "dropWhile P xs \<noteq> [] \<Longrightarrow> last (dropWhile P xs) = last xs"
  by (induction xs) (auto split: if_splits)

lemma TrimSpace_idem: "TrimSpace (TrimSpace s) = TrimSpace s"
proof -
  define u where "u = dropWhile isSpace s"
  define v where "v = dropWhile isSpace (rev u)"
  have t: "TrimSpace s = rev v" by (simp add: TrimSpace_def u_def v_def)
  have hd_v: "v = [] \<or> \<not> isSpace (hd v)"
    unfolding v_def using hd_dropWhile [of isSpace "rev u"] by blast
  have last_v: "v = [] \<or> \<not> isSpace (last v)"
  proof (cases "v = []")
    case True
    then show ?thesis by simp
  next
    case False
    then have "last v = last (rev u)"
      unfolding v_def by (rule last_dropWhile_eq)
    moreover from False have "u \<noteq> []" by (auto simp: v_def)
    ultimately have "last v = hd u" by (simp add: last_rev)
    moreover have "\<not> isSpace (hd u)"
      using \<open>u \<noteq> []\<close> hd_dropWhile [of isSpace s] by (simp add: u_def)
    ultimately show ?thesis by simp
  qed
  have "dropWhile isSpace (rev v) = rev v"
    using last_v by (intro dropWhile_id) (auto simp: hd_rev)
  moreover have "dropWhile isSpace v = v"
    using hd_v by (rule dropWhile_id)
  ultimately have "TrimSpace (rev v) = rev v"
    by (simp add: TrimSpace_def)
  with t show ?thesis by simp
qed

lemma Split_not_Nil: "Split s sep \<noteq> []"
  by (induction s) (auto split: list.splits)

lemma normalizeIP_unparsed:
  "ParseIP net (TrimSpace raw) = None \<Longrightarrow> normalizeIP net raw = TrimSpace raw"
  by (simp add: normalizeIP_def Let_def)

lemma xff_walk_last:
  assumes "parts \<noteq> []" and "TrimSpace (last parts) = e" and "e \<noteq> []" and "ParseIP net e = None"
  shows "xff_walk net trusted (rev parts) = Some e"
proof -
  from assms(1) obtain ps p where parts: "parts = ps @ [p]"
    by (metis append_butlast_last_id)
  with assms(2) have p: "TrimSpace p = e" by simp
  have "\<not> isTrusted net e trusted"
    using assms(4) by (simp add: isTrusted_def)
  moreover have "normalizeIP net e = e"
    using assms(4) p TrimSpace_idem [of p] by (simp add: normalizeIP_def Let_def)
  ultimately show ?thesis
    using p assms(3) by (simp add: parts Let_def)
qed

text \<open>
  Claim C10. When the trimmed input does not parse as an IP address, \<^verbatim>\<open>normalizeIP\<close>
  returns the trimmed input unchanged. So \<^verbatim>\<open>ClientIP\<close> returns a string that is not an
  IP address verbatim: a \<^verbatim>\<open>RemoteAddr\<close> whose host part does not parse, and, behind a
  trusted proxy without \<^verbatim>\<open>X-Real-IP\<close>, a rightmost \<^verbatim>\<open>X-Forwarded-For\<close> entry that does
  not parse.
\<close>

theorem C10_unparseable_passes_through:
  "(ParseIP net (TrimSpace raw) = None \<longrightarrow> normalizeIP net raw = TrimSpace raw)
   \<and> (ParseIP net (extractIP net (RemoteAddr r)) = None
        \<and> ParseIP net (TrimSpace (extractIP net (RemoteAddr r))) = None \<longrightarrow>
      ClientIP net cfg r = TrimSpace (extractIP net (RemoteAddr r)))
   \<and> (isTrusted net (extractIP net (RemoteAddr r')) (cfg_TrustedProxies c)
        \<and> Header r' ''X-Real-IP'' = []
        \<and> Header r' ''X-Forwarded-For'' \<noteq> []
        \<and> TrimSpace (last (Split (Header r' ''X-Forwarded-For'') CHR '','')) = e
        \<and> e \<noteq> [] \<and> ParseIP net e = None \<longrightarrow>
      ClientIP net (Some c) r' = e)"
proof (intro conjI impI)
  assume "ParseIP net (TrimSpace raw) = None"
  then show "normalizeIP net raw = TrimSpace raw" by (rule normalizeIP_unparsed)
next
  assume a: "ParseIP net (extractIP net (RemoteAddr r)) = None
        \<and> ParseIP net (TrimSpace (extractIP net (RemoteAddr r))) = None"
  then have "\<not> isTrusted net (extractIP net (RemoteAddr r)) ts" for ts
    by (simp add: isTrusted_def)
  with a show "ClientIP net cfg r = TrimSpace (extractIP net (RemoteAddr r))"
    by (simp add: ClientIP_def Let_def normalizeIP_unparsed)
next
  assume a: "isTrusted net (extractIP net (RemoteAddr r')) (cfg_TrustedProxies c)
        \<and> Header r' ''X-Real-IP'' = []
        \<and> Header r' ''X-Forwarded-For'' \<noteq> []
        \<and> TrimSpace (last (Split (Header r' ''X-Forwarded-For'') CHR '','')) = e
        \<and> e \<noteq> [] \<and> ParseIP net e = None"
  then have ne: "cfg_TrustedProxies c \<noteq> []"
    by (auto simp: isTrusted_def split: option.splits)
  have "xff_walk net (cfg_TrustedProxies c) (rev (Split (Header r' ''X-Forwarded-For'') CHR '','')) = Some e"
    using a by (intro xff_walk_last) (simp_all add: Split_not_Nil)
  with a ne show "ClientIP net (Some c) r' = e"
    by (simp add: ClientIP_def Let_def)
qed

theorem C10_unparseable_passes_through_witness:
  "normalizeIP ipv4_net '' not-an-ip  '' = ''not-an-ip''
   \<and> ClientIP ipv4_net (Some example_config) malformed_peer_request = ''not an address''
   \<and> ClientIP ipv4_net (Some trusting_config) (forwarded_request [] ''203.0.113.9, evil-host'') = ''evil-host''"
  using C10_unparseable_passes_through [of ipv4_net "'' not-an-ip  ''" malformed_peer_request
      "Some example_config" "forwarded_request [] ''203.0.113.9, evil-host''" trusting_config
      "''evil-host''"]
  by (simp add: trusting_config_def example_config_def malformed_peer_request_def
      example_request_def forwarded_request_def extractIP_def isTrusted_def ipv4_eval)

section \<open>Properties of the key functions\<close>

lemmas sha256_eval =
  sha256_def pad_def be_bytes8_def replicate_unfold compress_def K256_def H256_def slide_def
  add32_def rotr_def shr_def not32_def ssig0_def ssig1_def bsig0_def bsig1_def ch_def maj_def

lemma sha256_alice: "sha256 ''alice@example.com'' =
  [0xff8d9819, 0xfc0e12bf, 0x0d24892e, 0x45987e24, 0x9a28dce8, 0x36a85cad, 0x60e28eaa, 0xa8c6d976]"
  by (simp add: sha256_eval)

lemma sha256_bob: "sha256 ''bob@example.com'' =
  [0x5ff860bf, 0x1190596c, 0x7188ab85, 0x1db691f0, 0xf3169c45, 0x3936e9e1, 0xeba2f9a4, 0x7f7a0018]"
  by (simp add: sha256_eval)

lemma sha256_empty: "sha256 [] =
  [0xe3b0c442, 0x98fc1c14, 0x9afbf4c8, 0x996fb924, 0x27ae41e4, 0x649b934c, 0xa495991b, 0x7852b855]"
  by (simp add: sha256_eval)

lemma hashValue_empty: "hashValue [] = ''e3b0c44298fc1c14''"
  by (simp add: hashValue_def sha256_empty hex_EncodeToString_def hex_word_def hex_digit_def)

lemma hashValue_alice: "hashValue ''alice@example.com'' = ''ff8d9819fc0e12bf''"
  by (simp add: hashValue_def sha256_alice hex_EncodeToString_def hex_word_def hex_digit_def)

lemma hashValue_bob: "hashValue ''bob@example.com'' = ''5ff860bf1190596c''"
  by (simp add: hashValue_def sha256_bob hex_EncodeToString_def hex_word_def hex_digit_def)

lemma normalise_examples:
  "ToLower (TrimSpace ''Alice@example.com'') = ''alice@example.com''"
  "ToLower (TrimSpace ''alice@example.com '') = ''alice@example.com''"
  "ToLower (TrimSpace ''bob@example.com'') = ''bob@example.com''"
  by (simp_all add: ToLower_def toLower_char_def TrimSpace_def isSpace_def char_of_eq_iff)

lemma extractIdentifier_post:
  "Method r = ''POST'' \<Longrightarrow> FormValue r field \<noteq> [] \<Longrightarrow>
   extractIdentifier r field = ToLower (TrimSpace (FormValue r field))"
  by (simp add: extractIdentifier_def)

lemma ClientIP_cong:
  assumes "RemoteAddr r1 = RemoteAddr r2" and "Header r1 = Header r2"
  shows "ClientIP net cfg r1 = ClientIP net cfg r2"
proof -
  have "Header r1 h = Header r2 h" for h
    using assms(2) by simp
  with assms(1) show ?thesis
    by (simp add: ClientIP_def Let_def cong: if_cong)
qed

text \<open>
  Claim C8 (amended). Two \<^verbatim>\<open>POST\<close> requests that resolve to the same client IP (as two
  requests from the same peer do when no proxy is trusted) and carry non-empty form
  values for the identifier field get the same \<open>(key, key_type)\<close> pair exactly when the
  16-character fingerprints of their trimmed, lower-cased values agree. So values that
  differ only in letter case and surrounding whitespace, as \<^verbatim>\<open>"Alice@example.com"\<close> and
  \<^verbatim>\<open>"alice@example.com "\<close>, give the same key, and \<^verbatim>\<open>"bob@example.com"\<close> gives a different
  one.
\<close>

theorem C8_identifier_key:
  assumes "Method ra = ''POST''" and "Method rb = ''POST''"
    and "ClientIP net cfg ra = ClientIP net cfg rb"
    and "FormValue ra field \<noteq> []" and "FormValue rb field \<noteq> []"
  shows "(KeyByIPAndIdentifier net cfg field ra = KeyByIPAndIdentifier net cfg field rb) =
           (hashValue (ToLower (TrimSpace (FormValue ra field))) =
            hashValue (ToLower (TrimSpace (FormValue rb field))))
       \<and> ToLower (TrimSpace ''Alice@example.com'') = ToLower (TrimSpace ''alice@example.com '')
       \<and> hashValue (ToLower (TrimSpace ''bob@example.com'')) \<noteq>
           hashValue (ToLower (TrimSpace ''alice@example.com ''))"
proof -
  have "(KeyByIPAndIdentifier net cfg field ra = KeyByIPAndIdentifier net cfg field rb) =
           (hashValue (ToLower (TrimSpace (FormValue ra field))) =
            hashValue (ToLower (TrimSpace (FormValue rb field))))"
    using assms by (simp add: KeyByIPAndIdentifier_def Let_def extractIdentifier_post)
  moreover have "hashValue (ToLower (TrimSpace ''bob@example.com'')) \<noteq>
           hashValue (ToLower (TrimSpace ''alice@example.com ''))"
    by (simp only: normalise_examples hashValue_alice hashValue_bob) simp
  ultimately show ?thesis
    by (simp only: normalise_examples) simp
qed

lemma post_form_simps:
  "Method (post_form addr field v) = ''POST''"
  "RemoteAddr (post_form addr field v) = addr"
  "Header (post_form addr field v) = (\<lambda>h. [])"
  "FormValue (post_form addr field v) field = v"
  by (simp_all add: post_form_def FormValue_def Values_Get_def)

theorem C8_identifier_key_witness:
  "KeyByIPAndIdentifier ipv4_net None ''email'' (post_form ''10.0.0.5:1234'' ''email'' ''Alice@example.com'') =
   KeyByIPAndIdentifier ipv4_net None ''email'' (post_form ''10.0.0.5:1234'' ''email'' ''alice@example.com '')
   \<and> KeyByIPAndIdentifier ipv4_net None ''email'' (post_form ''10.0.0.5:1234'' ''email'' ''bob@example.com'') \<noteq>
   KeyByIPAndIdentifier ipv4_net None ''email'' (post_form ''10.0.0.5:1234'' ''email'' ''alice@example.com '')"
proof -
  have same: "hashValue (ToLower (TrimSpace ''Alice@example.com'')) =
      hashValue (ToLower (TrimSpace ''alice@example.com ''))"
    by (simp only: normalise_examples)
  note a = C8_identifier_key [where ra = "post_form ''10.0.0.5:1234'' ''email'' ''Alice@example.com''"
      and rb = "post_form ''10.0.0.5:1234'' ''email'' ''alice@example.com ''" and field = "''email''"
      and net = ipv4_net and cfg = None]
  note b = C8_identifier_key [where ra = "post_form ''10.0.0.5:1234'' ''email'' ''bob@example.com''"
      and rb = "post_form ''10.0.0.5:1234'' ''email'' ''alice@example.com ''" and field = "''email''"
      and net = ipv4_net and cfg = None]
  have ip: "ClientIP ipv4_net None (post_form ''10.0.0.5:1234'' ''email'' v) =
      ClientIP ipv4_net None (post_form ''10.0.0.5:1234'' ''email'' w)" for v w
    by (rule ClientIP_cong) (simp_all add: post_form_simps)
  from a same ip have "KeyByIPAndIdentifier ipv4_net None ''email'' (post_form ''10.0.0.5:1234'' ''email'' ''Alice@example.com'') =
   KeyByIPAndIdentifier ipv4_net None ''email'' (post_form ''10.0.0.5:1234'' ''email'' ''alice@example.com '')"
    by (simp add: post_form_simps)
  moreover from b ip have "KeyByIPAndIdentifier ipv4_net None ''email'' (post_form ''10.0.0.5:1234'' ''email'' ''bob@example.com'') \<noteq>
   KeyByIPAndIdentifier ipv4_net None ''email'' (post_form ''10.0.0.5:1234'' ''email'' ''alice@example.com '')"
    by (simp add: post_form_simps)
  ultimately show ?thesis by simp
qed

lemma length_hashValue: "length (hashValue v) \<le> 16"
  by (simp add: hashValue_def)

lemma finite_short_strings: "finite {s :: string. length s \<le> 16}"
  using finite_lists_length_le [of "UNIV :: char set" 16] by simp

lemma TrimSpace_letters: "TrimSpace (replicate n CHR ''a'') = replicate n CHR ''a''"
proof -
  have "dropWhile isSpace (replicate n CHR ''a'') = replicate n CHR ''a''"
    by (cases n) (simp_all add: isSpace_def)
  then show ?thesis by (simp add: TrimSpace_def)
qed

lemma ToLower_letters: "ToLower (replicate n CHR ''a'') = replicate n CHR ''a''"
  by (simp add: ToLower_def toLower_char_def)

text \<open>
  Claim C8 as stated fails in two places. An empty form value sends
  \<^verbatim>\<open>extractIdentifier\<close> to the query string: with \<^verbatim>\<open>email=alice@example.com\<close> in the query,
  the form values \<^verbatim>\<open>""\<close> and \<^verbatim>\<open>" "\<close>, which differ only in whitespace, get different keys.
  And it is not the case that every two non-empty values that differ after trimming and
  lower-casing get different keys: the fingerprint has at most 16 characters, so among
  the values \<^verbatim>\<open>a\<close>, \<^verbatim>\<open>aa\<close>, \<^verbatim>\<open>aaa\<close>, ... two get the same key.
\<close>

lemma empty_form_value_keys:
  "KeyByIPAndIdentifier ipv4_net None ''email''
       (post_form_query ''10.0.0.5:1234'' ''email'' [] ''alice@example.com'') \<noteq>
     KeyByIPAndIdentifier ipv4_net None ''email''
       (post_form_query ''10.0.0.5:1234'' ''email'' '' '' ''alice@example.com'')"
proof -
  have "extractIdentifier (post_form_query ''10.0.0.5:1234'' ''email'' [] ''alice@example.com'') ''email'' =
      ''alice@example.com''"
    by (simp add: extractIdentifier_def post_form_query_def post_form_def FormValue_def
        Values_Get_def normalise_examples [simplified])
       (simp add: ToLower_def toLower_char_def TrimSpace_def isSpace_def char_of_eq_iff)
  moreover have "extractIdentifier (post_form_query ''10.0.0.5:1234'' ''email'' '' '' ''alice@example.com'') ''email'' = []"
    by (simp add: extractIdentifier_def post_form_query_def post_form_def FormValue_def
        Values_Get_def ToLower_def TrimSpace_def isSpace_def)
  ultimately show ?thesis
    by (simp add: KeyByIPAndIdentifier_def Let_def hashValue_alice hashValue_empty)
qed

theorem C8_counterexample:
  "KeyByIPAndIdentifier ipv4_net None ''email''
       (post_form_query ''10.0.0.5:1234'' ''email'' [] ''alice@example.com'') \<noteq>
     KeyByIPAndIdentifier ipv4_net None ''email''
       (post_form_query ''10.0.0.5:1234'' ''email'' '' '' ''alice@example.com'')
   \<and> \<not> (\<forall>v1 v2. v1 \<noteq> [] \<and> v2 \<noteq> [] \<and> ToLower (TrimSpace v1) \<noteq> ToLower (TrimSpace v2) \<longrightarrow>
         KeyByIPAndIdentifier ipv4_net None ''email'' (post_form ''10.0.0.5:1234'' ''email'' v1) \<noteq>
         KeyByIPAndIdentifier ipv4_net None ''email'' (post_form ''10.0.0.5:1234'' ''email'' v2))"
proof (intro conjI, rule empty_form_value_keys)
  show "\<not> (\<forall>v1 v2. v1 \<noteq> [] \<and> v2 \<noteq> [] \<and> ToLower (TrimSpace v1) \<noteq> ToLower (TrimSpace v2) \<longrightarrow>
         KeyByIPAndIdentifier ipv4_net None ''email'' (post_form ''10.0.0.5:1234'' ''email'' v1) \<noteq>
         KeyByIPAndIdentifier ipv4_net None ''email'' (post_form ''10.0.0.5:1234'' ''email'' v2))"
  proof
  assume all: "\<forall>v1 v2. v1 \<noteq> [] \<and> v2 \<noteq> [] \<and> ToLower (TrimSpace v1) \<noteq> ToLower (TrimSpace v2) \<longrightarrow>
         KeyByIPAndIdentifier ipv4_net None ''email'' (post_form ''10.0.0.5:1234'' ''email'' v1) \<noteq>
         KeyByIPAndIdentifier ipv4_net None ''email'' (post_form ''10.0.0.5:1234'' ''email'' v2)"
  define f where "f n = replicate (Suc n) CHR ''a''" for n
  have "inj (\<lambda>n. hashValue (f n))"
  proof (rule injI)
    fix n m assume eq: "hashValue (f n) = hashValue (f m)"
    show "n = m"
    proof (rule ccontr)
      assume "n \<noteq> m"
      then have "ToLower (TrimSpace (f n)) \<noteq> ToLower (TrimSpace (f m))"
        by (simp add: f_def TrimSpace_letters ToLower_letters del: replicate_Suc)
      moreover have "f n \<noteq> []" "f m \<noteq> []" by (simp_all add: f_def)
      ultimately have "KeyByIPAndIdentifier ipv4_net None ''email'' (post_form ''10.0.0.5:1234'' ''email'' (f n)) \<noteq>
         KeyByIPAndIdentifier ipv4_net None ''email'' (post_form ''10.0.0.5:1234'' ''email'' (f m))"
        using all by blast
      moreover have "ClientIP ipv4_net None (post_form ''10.0.0.5:1234'' ''email'' (f n)) =
          ClientIP ipv4_net None (post_form ''10.0.0.5:1234'' ''email'' (f m))"
        by (rule ClientIP_cong) (simp_all add: post_form_simps)
      ultimately show False
        using eq \<open>f n \<noteq> []\<close> \<open>f m \<noteq> []\<close>
        by (simp add: KeyByIPAndIdentifier_def Let_def extractIdentifier_post post_form_simps
            f_def TrimSpace_letters ToLower_letters del: replicate_Suc)
    qed
  qed
  moreover have "range (\<lambda>n. hashValue (f n)) \<subseteq> {s. length s \<le> 16}"
    by (auto simp: length_hashValue)
  ultimately have "finite (UNIV :: nat set)"
    using finite_short_strings by (metis finite_imageD finite_subset)
  then show False by simp
qed
qed

section \<open>The repository's tests on the model\<close>

text \<open>The cases of \<^verbatim>\<open>bucket_test.go\<close>, \<^verbatim>\<open>store_memory_test.go\<close>, \<^verbatim>\<open>clientip_test.go\<close>
  (its dotted-quad cases) and of the concurrency test, with the outcomes the tests
  expect, and two scenarios of the specification: the trusted proxy and the basic
  admit-then-deny run.\<close>

lemmas bucket_eval =
  NewBucket_def wrap64_def Bucket_Allow_def Bucket_refill_def Bucket_RetryAfter_def
  Bucket_ResetUnix_def Seconds_def Second_def Unix_def trunc_def Let_def

lemma TestBucket_RefillAfterTime:
  "map snd (fst (Allow_calls
      (NewBucket \<lparr>Limit = 10, Window = Second, Burst = 0, Scope = [], Enabled = True, Cost = 1,
                   ConcurrencyLimit = 0\<rparr> 0)
      (replicate 11 (1, 0) @ [(1, Second)]))) = replicate 10 True @ [False, True]"
  by (simp add: bucket_eval replicate_unfold)

lemma TestBucket_CostBasedLimiting:
  "map snd (fst (Allow_calls
      (NewBucket \<lparr>Limit = 10, Window = 60 * Second, Burst = 0, Scope = [], Enabled = True,
                   Cost = 1, ConcurrencyLimit = 0\<rparr> 0)
      [(5, 0), (5, 0), (1, 0)])) = [True, True, False]"
  by (simp add: bucket_eval)

lemma TestBucket_RetryAfter:
  "Bucket_RetryAfter (snd (Allow_calls
      (NewBucket \<lparr>Limit = 10, Window = 10 * Second, Burst = 0, Scope = [], Enabled = True,
                   Cost = 1, ConcurrencyLimit = 0\<rparr> 0)
      (replicate 10 (1, 0)))) 1 = 1"
  by (simp add: bucket_eval replicate_unfold)

lemma TestMemoryStore_Headers:
  "(\<lambda>res. (Allowed res, Result_Limit res, Remaining res))
     (fst (MemoryStore_Allow Map.empty ''header-key''
        \<lparr>Limit = 10, Window = 60 * Second, Burst = 5, Scope = ''test'', Enabled = True, Cost = 1,
          ConcurrencyLimit = 0\<rparr> 1 0)) = (True, 15, 14)"
  by (simp add: MemoryStore_Allow_def bucket_eval)

lemma TestMemoryStore_Reset:
  "map Allowed (fst (MemoryStore_Allow_calls Map.empty ''reset-key''
        (example_policy\<lparr>Limit := 1\<rparr>) [(1, 0), (1, 0)])) = [True, False]
   \<and> Allowed (fst (MemoryStore_Allow
        (MemoryStore_Reset (snd (MemoryStore_Allow_calls Map.empty ''reset-key''
            (example_policy\<lparr>Limit := 1\<rparr>) [(1, 0), (1, 0)])) ''reset-key'')
        ''reset-key'' (example_policy\<lparr>Limit := 1\<rparr>) 1 0))"
  by (simp add: MemoryStore_Allow_def MemoryStore_Reset_def example_policy_def bucket_eval)

lemma TestMemoryConcurrencyStore:
  "fst (fst (MemoryConcurrencyStore_Acquire Map.empty ''k1'' 2))
   \<and> fst (fst (MemoryConcurrencyStore_Acquire
         (snd (MemoryConcurrencyStore_Acquire Map.empty ''k1'' 2)) ''k1'' 2))
   \<and> \<not> fst (fst (MemoryConcurrencyStore_Acquire
         (snd (MemoryConcurrencyStore_Acquire
            (snd (MemoryConcurrencyStore_Acquire Map.empty ''k1'' 2)) ''k1'' 2)) ''k1'' 2))
   \<and> fst (fst (MemoryConcurrencyStore_Acquire
         (snd (MemoryConcurrencyStore_Release
            (snd (MemoryConcurrencyStore_Acquire
               (snd (MemoryConcurrencyStore_Acquire Map.empty ''k1'' 2)) ''k1'' 2)) ''k1'')) ''k1'' 2))"
  by (simp add: MemoryConcurrencyStore_Acquire_def MemoryConcurrencyStore_Release_def
      inflight_get_def Let_def)

lemma TestNormalizeIP:
  "normalizeIP ipv4_net ''192.168.1.1'' = ''192.168.1.1''"
  "normalizeIP ipv4_net ''  10.0.0.1 '' = ''10.0.0.1''"
  by (simp_all add: normalizeIP_def ipv4_eval)

lemma TestIsTrusted:
  "isTrusted ipv4_net ''10.0.0.1'' [''10.0.0.0/8'', ''172.16.0.1'']"
  "isTrusted ipv4_net ''10.255.255.255'' [''10.0.0.0/8'', ''172.16.0.1'']"
  "isTrusted ipv4_net ''172.16.0.1'' [''10.0.0.0/8'', ''172.16.0.1'']"
  "\<not> isTrusted ipv4_net ''172.16.0.2'' [''10.0.0.0/8'', ''172.16.0.1'']"
  "\<not> isTrusted ipv4_net ''192.168.1.1'' [''10.0.0.0/8'', ''172.16.0.1'']"
  by (simp_all add: isTrusted_def ipv4_eval)

lemma trusted_proxy_scenario:
  "ClientIP ipv4_net (Some trusting_config) (forwarded_request [] ''203.0.113.9, 10.0.0.2'') =
     ''203.0.113.9''"
  by (simp add: ClientIP_def trusting_config_def example_config_def forwarded_request_def
      extractIP_def normalizeIP_def isTrusted_def ipv4_eval)

lemma basic_admit_then_deny_scenario:
  "map (\<lambda>res. (Allowed res, Remaining res)) (fst (MemoryStore_Allow_calls Map.empty ''ip:1.2.3.4''
        (example_policy\<lparr>Limit := 3\<rparr>) (replicate 5 (1, 0)))) =
     [(True, 2), (True, 1), (True, 0), (False, 0), (False, 0)]
   \<and> map RetryAfter (fst (MemoryStore_Allow_calls Map.empty ''ip:1.2.3.4''
        (example_policy\<lparr>Limit := 3\<rparr>) (replicate 5 (1, 0)))) = [0, 0, 0, 20, 20]"
  by (simp add: MemoryStore_Allow_def example_policy_def bucket_eval replicate_unfold)

end
